theory Spec2Isabelle
  imports Main
begin

section \<open>JavaScript values and strings\<close>

text \<open>
  The deployment task file \<^verbatim>\<open>gulpfile.js/deploy.js\<close> reads two commandline options
  (\<^verbatim>\<open>argv.tag\<close>, \<^verbatim>\<open>argv.project\<close>) whose values are dynamically typed: the option is
  \<^verbatim>\<open>undefined\<close> when the flag is absent, and otherwise a string, a number, a boolean
  or an array of these. The file uses such a value in exactly three ways: its truthiness
  (\<^verbatim>\<open>a || b\<close>), its conversion to a string (template literals,
  \<^verbatim>\<open>String.prototype.includes\<close>), and passing it on unchanged.

  A JavaScript number is a double, and the file never computes with one: it only tests a
  number for truthiness and prints it. A number is therefore given by these two
  observations: whether it is one of the falsy numbers \<^verbatim>\<open>0\<close>, \<^verbatim>\<open>-0\<close> and \<^verbatim>\<open>NaN\<close>, and the
  string that \<^verbatim>\<open>Number.prototype.toString\<close> gives for it (\<^verbatim>\<open>1.5\<close> for one and a half,
  \<^verbatim>\<open>1152921504606847000\<close> for \<open>2\<close> to the power \<open>60\<close>). Objects are lists of their own
  properties, in the order of the object literal.
\<close>

record jsnumber =
  zero_or_NaN :: bool
  printed :: string

datatype jsval =
    JUndefined
  | JBool bool
  | JNumber jsnumber
  | JString string
  | JArray "jsval list"
  | JObject "(string \<times> jsval) list"

definition digit_char :: "nat \<Rightarrow> char" where
  "digit_char d =
     (if d = 0 then CHR ''0'' else if d = 1 then CHR ''1'' else if d = 2 then CHR ''2''
      else if d = 3 then CHR ''3'' else if d = 4 then CHR ''4'' else if d = 5 then CHR ''5''
      else if d = 6 then CHR ''6'' else if d = 7 then CHR ''7'' else if d = 8 then CHR ''8''
      else CHR ''9'')"

function show_nat :: "nat \<Rightarrow> string" where
  "show_nat n =
     (if n < 10 then [digit_char n] else show_nat (n div 10) @ [digit_char (n mod 10)])"
  by pat_completeness auto
termination
  by (relation "measure id") auto

declare show_nat.simps [simp del]

text \<open>The number literals \<^verbatim>\<open>0\<close>, \<^verbatim>\<open>1\<close> and \<^verbatim>\<open>2\<close>.\<close>

definition number_0 :: jsnumber where
  "number_0 = \<lparr>zero_or_NaN = True, printed = ''0''\<rparr>"

definition number_1 :: jsnumber where
  "number_1 = \<lparr>zero_or_NaN = False, printed = ''1''\<rparr>"

definition number_2 :: jsnumber where
  "number_2 = \<lparr>zero_or_NaN = False, printed = ''2''\<rparr>"

text \<open>Truthiness, as the operator \<^verbatim>\<open>||\<close> tests it.\<close>

fun js_truthy :: "jsval \<Rightarrow> bool" where
  "js_truthy JUndefined = False"
| "js_truthy (JBool b) = b"
| "js_truthy (JNumber n) = (\<not> zero_or_NaN n)"
| "js_truthy (JString s) = (s \<noteq> [])"
| "js_truthy (JArray vs) = True"
| "js_truthy (JObject ps) = True"

text \<open>
  The conversion \<^verbatim>\<open>ToString\<close>, as a template literal \<^verbatim>\<open>${v}\<close> applies it. An array is
  the comma-separated list of its elements, an \<^verbatim>\<open>undefined\<close> element printing as nothing.
\<close>

fun join_comma :: "string list \<Rightarrow> string" where
  "join_comma [] = []"
| "join_comma [x] = x"
| "join_comma (x # y # ys) = x @ '','' @ join_comma (y # ys)"

fun js_to_string :: "jsval \<Rightarrow> string" where
  "js_to_string JUndefined = ''undefined''"
| "js_to_string (JBool b) = (if b then ''true'' else ''false'')"
| "js_to_string (JNumber n) = printed n"
| "js_to_string (JString s) = s"
| "js_to_string (JArray vs) =
     join_comma (map (\<lambda>v. if v = JUndefined then [] else js_to_string v) vs)"
| "js_to_string (JObject ps) = ''[object Object]''"

text \<open>
  A property read \<^verbatim>\<open>obj.p\<close> on an object with the own properties \<open>ps\<close>, for a name \<open>p\<close>
  that \<^verbatim>\<open>Object.prototype\<close> does not define: the property's value, or \<^verbatim>\<open>undefined\<close> when
  the object has no such property.
\<close>

definition js_member :: "(string \<times> jsval) list \<Rightarrow> string \<Rightarrow> jsval" where
  "js_member ps p = (case map_of ps p of None \<Rightarrow> JUndefined | Some v \<Rightarrow> v)"

text \<open>\<^verbatim>\<open>a || b\<close>: the left operand when it is truthy, the right one otherwise.\<close>

definition js_or :: "jsval \<Rightarrow> jsval \<Rightarrow> jsval" where
  "js_or a b = (if js_truthy a then a else b)"

text \<open>\<^verbatim>\<open>s.includes(t)\<close> on strings: \<open>t\<close> occurs in \<open>s\<close> as a contiguous substring.\<close>

fun js_includes :: "string \<Rightarrow> string \<Rightarrow> bool" where
  "js_includes [] t = (t = [])"
| "js_includes (c # cs) t = (take (length t) (c # cs) = t \<or> js_includes cs t)"

section \<open>The deployment configuration\<close>

text \<open>
  What the module reads when it is loaded: the parsed commandline
  (\<^verbatim>\<open>mri(process.argv.slice(2))\<close>), the clock (\<^verbatim>\<open>Date.now()\<close>, milliseconds since the
  epoch), the version string of \<^verbatim>\<open>@lib/utils/git\<close>, the project root \<^verbatim>\<open>ROOT\<close> of
  \<^verbatim>\<open>@lib/utils/project\<close> and Node's \<^verbatim>\<open>path.join\<close>. The last three are defined outside
  this file and are parameters here.
\<close>

record argv =
  tag :: jsval
  project :: jsval

record startup =
  argv :: argv
  Date_now :: nat
  git_version :: string
  ROOT :: string
  join :: "string \<Rightarrow> string \<Rightarrow> string"

record sh_opts =
  quiet :: "bool option"
  workingDir :: "string option"

record group =
  name :: string
  zone :: string

record instance_config =
  groups :: "group list"
  template :: string
  count :: jsnumber
  machine :: string

record gcloud =
  project :: jsval
  region :: string
  zone :: string

record image =
  name :: string
  current :: string

text \<open>
  The object \<^verbatim>\<open>config.packager\<close> has the fields \<^verbatim>\<open>prefix\<close>, \<^verbatim>\<open>tag\<close>, \<^verbatim>\<open>instance\<close> and
  \<^verbatim>\<open>image\<close> of \<^verbatim>\<open>config\<close> itself, and \<^verbatim>\<open>opts\<close> besides: both extend one record.
\<close>

record service =
  prefix :: string
  tag :: jsval
  "instance" :: instance_config
  image :: image

record packager = service +
  opts :: sh_opts

record config = service +
  gcloud :: gcloud
  packager :: packager

definition PREFIX :: string where
  "PREFIX = ''amp-dev''"

definition PACKAGER_PREFIX :: string where
  "PACKAGER_PREFIX = PREFIX @ ''-packager''"

definition TIMESTAMP :: "startup \<Rightarrow> nat" where
  "TIMESTAMP su = Date_now su"

definition TAG :: "startup \<Rightarrow> jsval" where
  "TAG su =
     js_or (argv.tag (argv su)) (JString (git_version su @ ''-'' @ show_nat (TIMESTAMP su)))"

definition PROJECT_ID :: "startup \<Rightarrow> jsval" where
  "PROJECT_ID su = js_or (argv.project (argv su)) (JString ''amp-dev-230314'')"

definition DEFAULT_REGION :: string where
  "DEFAULT_REGION = ''us-east1''"

definition DEFAULT_ZONE :: string where
  "DEFAULT_ZONE = ''us-east1-c''"

definition config :: "startup \<Rightarrow> config" where
  "config su =
     \<lparr>prefix = PREFIX,
      tag = TAG su,
      instance =
        \<lparr>groups =
           [\<lparr>group.name = ''ig-'' @ PREFIX @ ''-europe'', group.zone = ''europe-west2-c''\<rparr>,
            \<lparr>group.name = ''ig-'' @ PREFIX @ ''-zone2'', group.zone = ''us-east1-b''\<rparr>],
         template = ''it-'' @ PREFIX @ ''-'' @ js_to_string (TAG su),
         count = number_2,
         machine = ''n1-standard-2''\<rparr>,
      image =
        \<lparr>name = ''gcr.io/'' @ js_to_string (PROJECT_ID su) @ ''/'' @ PREFIX,
         current =
           ''gcr.io/'' @ js_to_string (PROJECT_ID su) @ ''/'' @ PREFIX @ '':''
             @ js_to_string (TAG su)\<rparr>,
      gcloud =
        \<lparr>project = PROJECT_ID su, region = DEFAULT_REGION, zone = DEFAULT_ZONE\<rparr>,
      packager =
        \<lparr>prefix = PACKAGER_PREFIX,
         tag = TAG su,
         instance =
           \<lparr>groups = [\<lparr>group.name = ''ig-'' @ PACKAGER_PREFIX, group.zone = ''us-east1-b''\<rparr>],
            template = ''it-'' @ PACKAGER_PREFIX @ ''-'' @ js_to_string (TAG su),
            count = number_1,
            machine = ''n1-standard-1''\<rparr>,
         image =
           \<lparr>name = ''gcr.io/'' @ js_to_string (PROJECT_ID su) @ ''/'' @ PACKAGER_PREFIX,
            current =
              ''gcr.io/'' @ js_to_string (PROJECT_ID su) @ ''/'' @ PACKAGER_PREFIX @ '':''
                @ js_to_string (TAG su)\<rparr>,
         opts = \<lparr>quiet = None, workingDir = Some (join su (ROOT su) ''packager'')\<rparr>\<rparr>\<rparr>"

text \<open>
  The object \<^verbatim>\<open>config.instance\<close> as JavaScript sees it: its own properties, by name.
\<close>

definition group_properties :: "group \<Rightarrow> (string \<times> jsval) list" where
  "group_properties g =
     [(''name'', JString (group.name g)), (''zone'', JString (group.zone g))]"

definition instance_properties :: "instance_config \<Rightarrow> (string \<times> jsval) list" where
  "instance_properties i =
     [(''groups'', JArray (map (\<lambda>g. JObject (group_properties g)) (groups i))),
      (''template'', JString (template i)),
      (''count'', JNumber (count i)),
      (''machine'', JString (machine i))]"

section \<open>Shell commands and tasks\<close>

text \<open>
  A task runs in a state: the object bound to the constant \<^verbatim>\<open>config\<close> (which a task
  could assign to), the shell commands issued so far, in the order of issue, and the
  argument lists of the calls of \<^verbatim>\<open>console.log\<close> so far.
\<close>

record sh_call =
  command :: string
  options :: "sh_opts option"

record state =
  cfg :: config
  calls :: "sh_call list"
  console :: "jsval list list"

definition init :: "startup \<Rightarrow> state" where
  "init su = \<lparr>cfg = config su, calls = [], console = []\<rparr>"

text \<open>
  A promise that rejects, or a \<^verbatim>\<open>throw\<close> in an \<^verbatim>\<open>async\<close> function, is an error value:
  \<open>CommandFailed c\<close> is the rejection of \<^verbatim>\<open>sh\<close> for the command \<open>c\<close>, \<open>Error m\<close> is
  \<^verbatim>\<open>new Error(m)\<close>.
\<close>

datatype error = CommandFailed string | Error string

text \<open>
  The world outside the process: what a command prints when it runs after a given
  history of commands, or \<open>None\<close> when it exits with a non-zero status.
\<close>

type_synonym world = "sh_call list \<Rightarrow> sh_call \<Rightarrow> string option"

text \<open>
  Modelled from the spec: the helper \<^verbatim>\<open>sh\<close> of \<^verbatim>\<open>@lib/utils/sh.js\<close> is not in this file.
  It invokes an external command as an opaque subprocess; the promise it returns resolves
  to the command's output, and "any external command's non-zero exit propagates as a
  fatal failure". It does not touch \<^verbatim>\<open>config\<close>.
\<close>

definition sh :: "world \<Rightarrow> string \<Rightarrow> sh_opts option \<Rightarrow> state \<Rightarrow> (error + string) \<times> state" where
  "sh w c os s =
     (let call = \<lparr>command = c, options = os\<rparr>
      in (case w (calls s) call of None \<Rightarrow> Inl (CommandFailed c) | Some out \<Rightarrow> Inr out,
          s\<lparr>calls := calls s @ [call]\<rparr>))"

definition console_log :: "jsval list \<Rightarrow> state \<Rightarrow> state" where
  "console_log args s = s\<lparr>console := console s @ [args]\<rparr>"

text \<open>
  \<^verbatim>\<open>xs.map(f)\<close> with a callback that starts a command: the callbacks run in the order
  of the list, each one issuing its command, and the result is the list of promises.
  \<^verbatim>\<open>Promise.all\<close> rejects when one of them rejects (the model reports the first one in
  list order) and resolves to the list of results otherwise.
\<close>

fun map_promises ::
  "('a \<Rightarrow> state \<Rightarrow> (error + 'b) \<times> state) \<Rightarrow> 'a list \<Rightarrow> state \<Rightarrow> (error + 'b) list \<times> state"
where
  "map_promises f [] s = ([], s)"
| "map_promises f (x # xs) s =
     (case f x s of (r, s1) \<Rightarrow>
        (case map_promises f xs s1 of (rs, s2) \<Rightarrow> (r # rs, s2)))"

fun Promise_all :: "(error + 'b) list \<Rightarrow> error + 'b list" where
  "Promise_all [] = Inr []"
| "Promise_all (Inl e # ps) = Inl e"
| "Promise_all (Inr v # ps) =
     (case Promise_all ps of Inl e \<Rightarrow> Inl e | Inr vs \<Rightarrow> Inr (v # vs))"

definition verifyTag :: "world \<Rightarrow> state \<Rightarrow> (error + unit) \<times> state" where
  "verifyTag w s =
     (case sh w (''gcloud container images list-tags '' @ image.name (image (cfg s)))
             (Some \<lparr>quiet = Some True, workingDir = None\<rparr>) s of
        (Inl e, s1) \<Rightarrow> (Inl e, s1)
      | (Inr tags, s1) \<Rightarrow>
          (let s2 = console_log [JString ''Verifying build tag'', tag (cfg s1)] s1
           in if js_includes tags (js_to_string (tag (cfg s2)))
              then (Inl (Error (''The commit '' @ js_to_string (tag (cfg s2))
                                  @ '' you are trying to build has ''
                                  @ ''already been deployed!'')), s2)
              else (Inr (), s2)))"

definition gcloudSetup :: "world \<Rightarrow> state \<Rightarrow> (error + unit) \<times> state" where
  "gcloudSetup w s =
     (case sh w ''gcloud auth configure-docker'' None s of
        (Inl e, s1) \<Rightarrow> (Inl e, s1)
      | (Inr _, s1) \<Rightarrow>
          (case sh w (''gcloud config set compute/region '' @ region (gcloud (cfg s1))) None s1 of
             (Inl e, s2) \<Rightarrow> (Inl e, s2)
           | (Inr _, s2) \<Rightarrow>
               (case sh w (''gcloud config set compute/zone '' @ gcloud.zone (gcloud (cfg s2)))
                       None s2 of
                  (Inl e, s3) \<Rightarrow> (Inl e, s3)
                | (Inr _, s3) \<Rightarrow> (Inr (), s3))))"

definition imageBuild :: "world \<Rightarrow> state \<Rightarrow> (error + string) \<times> state" where
  "imageBuild w s = sh w (''docker build --tag '' @ current (image (cfg s)) @ '' .'') None s"

definition imageRunLocal :: "world \<Rightarrow> state \<Rightarrow> (error + string) \<times> state" where
  "imageRunLocal w s =
     sh w (''docker run -d -p 8082:80 '' @ current (image (cfg s))) None s"

definition imageUpload :: "world \<Rightarrow> state \<Rightarrow> (error + string) \<times> state" where
  "imageUpload w s =
     sh w (''gcloud builds submit --tag '' @ current (image (cfg s)) @ '' .'') None s"

definition imageList :: "world \<Rightarrow> state \<Rightarrow> (error + string) \<times> state" where
  "imageList w s =
     sh w (''gcloud container images list-tags '' @ image.name (image (cfg s))) None s"

text \<open>
  In a template literal a backslash at the end of a line continues the line: neither the
  backslash nor the line break is part of the string, the indentation of the next line is.
\<close>

definition instanceTemplateCreate :: "world \<Rightarrow> state \<Rightarrow> (error + string) \<times> state" where
  "instanceTemplateCreate w s =
     sh w (''gcloud compute instance-templates create-with-container ''
             @ template (instance (cfg s)) @ '' ''
           @ ''                 --container-image '' @ current (image (cfg s)) @ '' ''
           @ ''                 --machine-type '' @ machine (instance (cfg s)) @ '' ''
           @ ''                 --tags http-server,https-server ''
           @ ''                 --scopes default,datastore'') None s"

definition updateStart :: "world \<Rightarrow> state \<Rightarrow> (error + unit) \<times> state" where
  "updateStart w s =
     (case map_promises
             (\<lambda>group s'.
                sh w (''gcloud beta compute instance-groups managed rolling-action ''
                      @ ''                 start-update '' @ group.name group @ '' ''
                      @ ''                 --version template='' @ template (instance (cfg s'))
                        @ '' ''
                      @ ''                 --zone='' @ group.zone group @ '' ''
                      @ ''                 --min-ready 4m ''
                      @ ''                 --max-surge 1 ''
                      @ ''                 --max-unavailable 1'') None s')
             (groups (instance (cfg s))) s of
        (updates, s1) \<Rightarrow>
          (case Promise_all updates of
             Inl e \<Rightarrow> (Inl e, s1)
           | Inr _ \<Rightarrow>
               (Inr (),
                console_log
                  [JString (''Rolling update started, this can take a few minutes...\<newline>\<newline>''
                            @ ''Run `gulp updateStatus` to check the current status. ''
                            @ ''`isStable => true` once ''
                            @ ''when the upate has been finished.'')] s1)))"

definition updateStatus :: "world \<Rightarrow> state \<Rightarrow> (error + string list) \<times> state" where
  "updateStatus w s =
     (case map_promises
             (\<lambda>group s'.
                sh w (''gcloud beta compute instance-groups managed describe ''
                        @ group.name group @ '' ''
                      @ ''             --zone='' @ group.zone group) None s')
             (groups (instance (cfg s))) s of
        (updates, s1) \<Rightarrow> (Promise_all updates, s1))"

definition updateStop :: "world \<Rightarrow> state \<Rightarrow> (error + string) \<times> state" where
  "updateStop w s =
     sh w (''gcloud compute instance-groups managed rolling-action ''
           @ ''    stop-proactive-update ''
             @ js_to_string (js_member (instance_properties (instance (cfg s))) ''group''))
        None s"

definition packagerInstanceTemplateCreate :: "world \<Rightarrow> state \<Rightarrow> (error + string) \<times> state" where
  "packagerInstanceTemplateCreate w s =
     sh w (''gcloud compute instance-templates create-with-container ''
           @ ''                                   '' @ template (instance (packager (cfg s)))
             @ '' ''
           @ ''                 --container-image '' @ current (image (packager (cfg s)))
             @ '' ''
           @ ''                 --machine-type '' @ machine (instance (packager (cfg s))))
        (Some (opts (packager (cfg s)))) s"

definition packagerImageUpload :: "world \<Rightarrow> state \<Rightarrow> (error + string) \<times> state" where
  "packagerImageUpload w s =
     sh w (''gcloud builds submit --tag '' @ current (image (packager (cfg s))) @ '' .'')
        (Some (opts (packager (cfg s)))) s"

definition packagerUpdateStart :: "world \<Rightarrow> state \<Rightarrow> (error + unit) \<times> state" where
  "packagerUpdateStart w s =
     (case map_promises
             (\<lambda>group s'.
                sh w (''gcloud beta compute instance-groups managed rolling-action ''
                      @ ''                 start-update '' @ group.name group @ '' ''
                      @ ''                 --version template=''
                        @ template (instance (packager (cfg s'))) @ '' ''
                      @ ''                 --zone='' @ group.zone group @ '' ''
                      @ ''                 --min-ready 1m ''
                      @ ''                 --max-surge 1 ''
                      @ ''                 --max-unavailable 1'')
                   (Some (opts (packager (cfg s')))) s')
             (groups (instance (packager (cfg s)))) s of
        (updates, s1) \<Rightarrow>
          (case Promise_all updates of
             Inl e \<Rightarrow> (Inl e, s1)
           | Inr _ \<Rightarrow>
               (Inr (),
                console_log
                  [JString ''Rolling update started, this can take a few minutes...''] s1)))"

text \<open>
  gulp's \<^verbatim>\<open>series\<close> runs its tasks one after the other, each one starting when the one
  before has completed, and stops at the first task that fails, with that task's error.
  The value a task resolves to is dropped.
\<close>

type_synonym task = "world \<Rightarrow> state \<Rightarrow> (error + unit) \<times> state"

definition as_task :: "(world \<Rightarrow> state \<Rightarrow> (error + 'a) \<times> state) \<Rightarrow> task" where
  "as_task f w s =
     (case f w s of (Inl e, s1) \<Rightarrow> (Inl e, s1) | (Inr _, s1) \<Rightarrow> (Inr (), s1))"

fun series :: "task list \<Rightarrow> task" where
  "series [] w s = (Inr (), s)"
| "series (t # ts) w s =
     (case t w s of (Inl e, s1) \<Rightarrow> (Inl e, s1) | (Inr _, s1) \<Rightarrow> series ts w s1)"

definition deploy :: task where
  "deploy =
     series [verifyTag, as_task imageUpload, as_task instanceTemplateCreate, updateStart]"

definition packagerDeploy :: task where
  "packagerDeploy =
     series [as_task packagerImageUpload, as_task packagerInstanceTemplateCreate,
             packagerUpdateStart]"

text \<open>
  The tasks the module exports, by name, in the order of its \<^verbatim>\<open>exports\<close> assignments.
\<close>

definition exports :: "(string \<times> task) list" where
  "exports =
     [(''verifyTag'', verifyTag),
      (''gcloudSetup'', gcloudSetup),
      (''deploy'', deploy),
      (''imageBuild'', as_task imageBuild),
      (''imageList'', as_task imageList),
      (''imageRunLocal'', as_task imageRunLocal),
      (''imageUpload'', as_task imageUpload),
      (''instanceTemplateCreate'', as_task instanceTemplateCreate),
      (''packagerDeploy'', packagerDeploy),
      (''packagerImageUpload'', as_task packagerImageUpload),
      (''packagerInstanceTemplateCreate'', as_task packagerInstanceTemplateCreate),
      (''packagerUpdateStart'', packagerUpdateStart),
      (''updateStop'', as_task updateStop),
      (''updateStatus'', as_task updateStatus),
      (''updateStart'', updateStart)]"

text \<open>
  The states of one process run: the state after the module is loaded, and the state
  after any exported task has run in a state of the run.
\<close>

inductive reachable :: "world \<Rightarrow> startup \<Rightarrow> state \<Rightarrow> bool" for w su where
  at_start: "reachable w su (init su)"
| after_task: "reachable w su s \<Longrightarrow> (n, t) \<in> set exports \<Longrightarrow> reachable w su (snd (t w s))"

text \<open>The commands a task issues when it runs in the state \<open>s\<close>, in the order of issue.\<close>

definition issued :: "(world \<Rightarrow> state \<Rightarrow> 'a \<times> state) \<Rightarrow> world \<Rightarrow> state \<Rightarrow> sh_call list" where
  "issued f w s = drop (length (calls s)) (calls (snd (f w s)))"

subsection \<open>The packager composite as the specification describes it\<close>

text \<open>
  The specification calls \<^verbatim>\<open>packagerDeploy\<close> the analogue of \<^verbatim>\<open>deploy\<close> for the packager
  service. Read step by step, that is a composite of four steps, the first of which
  verifies the tag against the packager's image as \<^verbatim>\<open>verifyTag\<close> does against the main
  image. The file defines no such step; the two definitions below follow the
  specification's words and are compared with \<open>packagerDeploy\<close> further down.
\<close>

definition packagerVerifyTag_spec :: task where
  "packagerVerifyTag_spec w s =
     (case sh w (''gcloud container images list-tags '' @ image.name (image (packager (cfg s))))
             (Some \<lparr>quiet = Some True, workingDir = None\<rparr>) s of
        (Inl e, s1) \<Rightarrow> (Inl e, s1)
      | (Inr tags, s1) \<Rightarrow>
          (let s2 = console_log [JString ''Verifying build tag'', tag (packager (cfg s1))] s1
           in if js_includes tags (js_to_string (tag (packager (cfg s2))))
              then (Inl (Error (''The commit '' @ js_to_string (tag (packager (cfg s2)))
                                  @ '' you are trying to build has ''
                                  @ ''already been deployed!'')), s2)
              else (Inr (), s2)))"

definition packagerDeploy_spec :: task where
  "packagerDeploy_spec =
     series [packagerVerifyTag_spec, as_task packagerImageUpload,
             as_task packagerInstanceTemplateCreate, packagerUpdateStart]"

subsection \<open>Sample inputs\<close>

text \<open>
  Concrete commandlines, clocks and worlds at which the theorems below are instantiated:
  no flags at two different times, \<^verbatim>\<open>--tag ABCDE --project my-gcloud-project\<close>, the tag
  \<^verbatim>\<open>1152921504606846976\<close>, which the commandline parser hands over as a number and which
  JavaScript prints as \<^verbatim>\<open>1152921504606847000\<close>, an empty tag, and the tag \<^verbatim>\<open>0\<close>, handed over
  as the number zero. In the world \<open>answer out\<close> every command succeeds and prints \<open>out\<close>.
\<close>

definition join_slash :: "string \<Rightarrow> string \<Rightarrow> string" where
  "join_slash a b = a @ ''/'' @ b"

definition startup_default :: startup where
  "startup_default =
     \<lparr>argv = \<lparr>argv.tag = JUndefined, argv.project = JUndefined\<rparr>, Date_now = 42,
      git_version = ''abc'', ROOT = ''/repo'', join = join_slash\<rparr>"

definition startup_later :: startup where
  "startup_later =
     \<lparr>argv = \<lparr>argv.tag = JUndefined, argv.project = JUndefined\<rparr>, Date_now = 43,
      git_version = ''abc'', ROOT = ''/repo'', join = join_slash\<rparr>"

definition startup_tagged :: startup where
  "startup_tagged =
     \<lparr>argv = \<lparr>argv.tag = JString ''ABCDE'', argv.project = JString ''my-gcloud-project''\<rparr>,
      Date_now = 42, git_version = ''abc'', ROOT = ''/repo'', join = join_slash\<rparr>"

definition startup_tag_number :: startup where
  "startup_tag_number =
     \<lparr>argv = \<lparr>argv.tag = JNumber \<lparr>zero_or_NaN = False, printed = ''1152921504606847000''\<rparr>,
              argv.project = JUndefined\<rparr>,
      Date_now = 42, git_version = ''abc'', ROOT = ''/repo'', join = join_slash\<rparr>"

definition startup_tag_empty :: startup where
  "startup_tag_empty =
     \<lparr>argv = \<lparr>argv.tag = JString [], argv.project = JString ''my-gcloud-project''\<rparr>,
      Date_now = 42, git_version = ''abc'', ROOT = ''/repo'', join = join_slash\<rparr>"

definition startup_tag0 :: startup where
  "startup_tag0 =
     \<lparr>argv = \<lparr>argv.tag = JNumber number_0, argv.project = JUndefined\<rparr>, Date_now = 42,
      git_version = ''abc'', ROOT = ''/repo'', join = join_slash\<rparr>"

definition answer :: "string \<Rightarrow> world" where
  "answer out h c = Some out"

text \<open>
  The commandline \<^verbatim>\<open>--tag v1\<close>, and what the registry query prints when the image has one
  digest, tagged \<^verbatim>\<open>v10\<close>.
\<close>

definition startup_v1 :: startup where
  "startup_v1 =
     \<lparr>argv = \<lparr>argv.tag = JString ''v1'', argv.project = JUndefined\<rparr>, Date_now = 42,
      git_version = ''abc'', ROOT = ''/repo'', join = join_slash\<rparr>"

definition registry_lists_v10 :: string where
  "registry_lists_v10 =
     ''DIGEST        TAGS  TIMESTAMP\<newline>''
     @ ''0a1b2c3d4e5f  v10   2019-05-01T10:00:00\<newline>''"

section \<open>The code-preview template\<close>

text \<open>
  The partial \<^verbatim>\<open>code-preview.j2\<close> is a Jinja template. Rendering it is a function of its
  inputs: the preview descriptor, the content and the playground base URL of the page
  context, and the filters and functions of the environment, which are defined outside
  the template and are parameters here: \<open>autoescape\<close> is what the environment does to the
  value of a printed expression that is not marked \<^verbatim>\<open>safe\<close> (the identity when
  autoescaping is off), \<open>render\<close> and \<open>urlencode\<close> are the filters of these names and
  \<open>gettext\<close> is the function \<^verbatim>\<open>_\<close>. Whitespace around block tags is kept, as Jinja does
  by default. An inline \<^verbatim>\<open>if\<close> without \<^verbatim>\<open>else\<close> prints nothing when its test fails.
\<close>

record jinja =
  autoescape :: "string \<Rightarrow> string"
  render :: "string \<Rightarrow> string"
  urlencode :: "string \<Rightarrow> string"
  gettext :: "string \<Rightarrow> string"

record preview =
  mode :: string
  source :: string
  orientation :: "string option"
  index :: nat
  url :: string
  playground :: bool

record page_context =
  preview :: preview
  content :: string
  playground_base :: string

text \<open>Lines 1 to 3: the opening tag of the wrapping container.\<close>

definition wrapper_open :: "jinja \<Rightarrow> preview \<Rightarrow> string" where
  \<open>wrapper_open j p =
       ''\<newline>''
     @ ''<div class="ap-o-code-preview ''
     @ (if mode p \<noteq> ''none'' then autoescape j (mode p) else [])
     @ ''">\<newline>''\<close>

text \<open>Lines 5 to 9: the inline preview.\<close>

definition inline_block :: "jinja \<Rightarrow> preview \<Rightarrow> string" where
  \<open>inline_block j p =
       ''\<newline>''
     @ ''  <div class="ap-o-code-preview-preview">\<newline>''
     @ ''     ''
     @ render j (source p)
     @ ''\<newline>''
     @ ''  </div>\<newline>''
     @ ''  ''\<close>

text \<open>Lines 11 to 69: the preview in a frame above the code.\<close>

definition top_frame_block :: "jinja \<Rightarrow> preview \<Rightarrow> string" where
  \<open>top_frame_block j p =
     (let initial_orientation =
            (case orientation p of
               None \<Rightarrow> ''landscape''
             | Some v \<Rightarrow> if v \<noteq> [] then v else ''landscape'');
          is_landscape = (initial_orientation = ''landscape'')
      in
         ''\<newline>''
       @ ''  ''
       @ ''\<newline>''
       @ ''  ''
       @ ''\<newline>''
       @ ''  <amp-state id="orientation''
       @ autoescape j (show_nat (index p))
       @ ''">\<newline>''
       @ ''    <script type="application/json">\<newline>''
       @ ''      ''
       @ autoescape j (if is_landscape then ''true'' else ''false'')
       @ ''\<newline>''
       @ ''    </script>\<newline>''
       @ ''  </amp-state>\<newline>''
       @ ''  <amp-state id="example''
       @ autoescape j (show_nat (index p))
       @ ''">\<newline>''
       @ ''    <script type="application/json">\<newline>''
       @ ''      "''
       @ autoescape j (url p)
       @ ''"\<newline>''
       @ ''    </script>\<newline>''
       @ ''  </amp-state>\<newline>''
       @ ''\<newline>''
       @ ''  <div class="ap-o-code-preview-top-preview ap-o-code-preview-top-preview-''
       @ autoescape j (show_nat (index p))
       @ ''">\<newline>''
       @ ''\<newline>''
       @ ''    <div class="ap-o-code-preview-controls">\<newline>''
       @ ''      <button ''
       @ (if \<not> is_landscape then autoescape j ''hidden'' else [])
       @ '' [hidden]="!orientation''
       @ autoescape j (show_nat (index p))
       @ ''"\<newline>''
       @ ''              class="ap-o-code-preview-controls-button"\<newline>''
       @ ''              on="tap:\<newline>''
       @ ''                  AMP.setState({orientation''
       @ autoescape j (show_nat (index p))
       @ '': false}),\<newline>''
       @ ''                  iframeContainer''
       @ autoescape j (show_nat (index p))
       @ ''.toggleClass(class='ap-o-code-preview-preview-iframe-landscape'),\<newline>''
       @ ''                  iframeContainer''
       @ autoescape j (show_nat (index p))
       @ ''.toggleClass(class='ap-o-code-preview-preview-iframe-portrait')">\<newline>''
       @ ''        <div class="ap-a-ico ap-o-code-preview-controls-icon">\<newline>''
       @ ''          <svg><use xmlns:xlink="http://www.w3.org/1999/xlink" xlink:href="#orientation-toggle"></use></svg>\<newline>''
       @ ''        </div>\<newline>''
       @ ''      </button>\<newline>''
       @ ''      <button ''
       @ (if is_landscape then autoescape j ''hidden'' else [])
       @ '' [hidden]="orientation''
       @ autoescape j (show_nat (index p))
       @ ''"\<newline>''
       @ ''              class="ap-o-code-preview-controls-button"\<newline>''
       @ ''              on="tap:\<newline>''
       @ ''                  AMP.setState({orientation''
       @ autoescape j (show_nat (index p))
       @ '': true}),\<newline>''
       @ ''                  iframeContainer''
       @ autoescape j (show_nat (index p))
       @ ''.toggleClass(class='ap-o-code-preview-preview-iframe-portrait'),\<newline>''
       @ ''                  iframeContainer''
       @ autoescape j (show_nat (index p))
       @ ''.toggleClass(class='ap-o-code-preview-preview-iframe-landscape')">\<newline>''
       @ ''        <div class="ap-a-ico ap-o-code-preview-controls-icon">\<newline>''
       @ ''          <svg><use xmlns:xlink="http://www.w3.org/1999/xlink" xlink:href="#orientation-toggle"></use></svg>\<newline>''
       @ ''        </div>\<newline>''
       @ ''      </button>\<newline>''
       @ ''\<newline>''
       @ ''      <button class="ap-o-code-preview-controls-button"\<newline>''
       @ ''              on="tap:AMP.setState({'example''
       @ autoescape j (show_nat (index p))
       @ [CHR 0x27] @ '': '' @ [CHR 0x27]
       @ autoescape j (url p @ ''?'')
       @ [CHR 0x27] @ '' + random()})">\<newline>''
       @ ''        <div class="ap-a-ico ap-o-code-preview-controls-icon">\<newline>''
       @ ''          <svg><use xmlns:xlink="http://www.w3.org/1999/xlink" xlink:href="#reload"></use></svg>\<newline>''
       @ ''        </div>\<newline>''
       @ ''      </button>\<newline>''
       @ ''    </div>\<newline>''
       @ ''\<newline>''
       @ ''    <div id="iframeContainer''
       @ autoescape j (show_nat (index p))
       @ ''" class="ap-o-code-preview-preview-iframe ap-o-code-preview-preview-iframe-''
       @ autoescape j initial_orientation
       @ ''">\<newline>''
       @ ''      <amp-iframe class="ap-o-code-preview-iframe"\<newline>''
       @ ''                  src="''
       @ autoescape j (url p)
       @ ''"\<newline>''
       @ ''                  [src]="example''
       @ autoescape j (show_nat (index p))
       @ ''"\<newline>''
       @ ''                  layout="flex-item"\<newline>''
       @ ''                  sandbox="allow-scripts allow-popups allow-same-origin"\<newline>''
       @ ''                  frameborder="0">\<newline>''
       @ ''        <div placeholder></div>\<newline>''
       @ ''      </amp-iframe>\<newline>''
       @ ''      <div class="ap-o-code-preview-preview-iframe-background initial-''
       @ autoescape j initial_orientation
       @ ''"></div>\<newline>''
       @ ''    </div>\<newline>''
       @ ''  </div>\<newline>''
       @ ''  '')\<close>

text \<open>
  Lines 100 to 109: the body of the loop over the two orientations; \<open>orientation'\<close> is
  the loop variable \<^verbatim>\<open>orientation\<close>.
\<close>

definition orientation_button :: "jinja \<Rightarrow> preview \<Rightarrow> string \<Rightarrow> string" where
  \<open>orientation_button j p orientation' =
       ''\<newline>''
     @ ''      ''
     @ ''\<newline>''
     @ ''      <button class="ap-m-orientation-toggle-button ''
     @ (if orientation' = ''portrait'' then ''active'' else [])
     @ ''"\<newline>''
     @ ''              [class]="orientation''
     @ autoescape j (show_nat (index p))
     @ '' == '' @ [CHR 0x27]
     @ autoescape j orientation'
     @ [CHR 0x27] @ '' ? 'ap-m-orientation-toggle-button active' : 'ap-m-orientation-toggle-button'"\<newline>''
     @ ''              on="tap:AMP.setState({orientation''
     @ autoescape j (show_nat (index p))
     @ '': '' @ [CHR 0x27]
     @ autoescape j orientation'
     @ [CHR 0x27] @ ''})">\<newline>''
     @ ''        <svg class="ap-a-ico ap-m-orientation-toggle-icon">\<newline>''
     @ ''          <use xmlns:xlink="http://www.w3.org/1999/xlink" xlink:href="#orientation-''
     @ autoescape j orientation'
     @ ''"></use>\<newline>''
     @ ''        </svg>\<newline>''
     @ ''      </button>\<newline>''
     @ ''      ''\<close>

text \<open>Lines 73 to 133: the preview in a frame beside the code.\<close>

definition side_frame_block :: "jinja \<Rightarrow> preview \<Rightarrow> string" where
  \<open>side_frame_block j p =
     (let base_class = ''ap-o-code-preview-side-preview'';
          orientations = [''portrait'', ''landscape'']
      in
         ''\<newline>''
       @ ''  <amp-state id="orientation''
       @ autoescape j (show_nat (index p))
       @ ''">\<newline>''
       @ ''    <script type="application/json">\<newline>''
       @ ''      "portrait"\<newline>''
       @ ''    </script>\<newline>''
       @ ''  </amp-state>\<newline>''
       @ ''  <amp-state id="example''
       @ autoescape j (show_nat (index p))
       @ ''">\<newline>''
       @ ''    <script type="application/json">\<newline>''
       @ ''      "''
       @ autoescape j (url p)
       @ ''"\<newline>''
       @ ''    </script>\<newline>''
       @ ''  </amp-state>\<newline>''
       @ ''  ''
       @ ''\<newline>''
       @ ''  <div class="''
       @ autoescape j base_class
       @ ''"\<newline>''
       @ ''       [class]="hidePreview''
       @ autoescape j (show_nat (index p))
       @ '' != 1 ? '' @ [CHR 0x27]
       @ autoescape j base_class
       @ '' ''
       @ autoescape j base_class
       @ ''-active' : '' @ [CHR 0x27]
       @ autoescape j base_class
       @ [CHR 0x27] @ ''">\<newline>''
       @ ''\<newline>''
       @ ''    <button class="ap-a-fab ap-a-fab-show"\<newline>''
       @ ''            [class]="hidePreview''
       @ autoescape j (show_nat (index p))
       @ '' != 1 ? 'ap-a-fab ap-a-fab-hide' : 'ap-a-fab ap-a-fab-show'"\<newline>''
       @ ''            on="tap:AMP.setState({ hidePreview''
       @ autoescape j (show_nat (index p))
       @ '': 0 }),previewIframe''
       @ autoescape j (show_nat (index p))
       @ ''.toggleClass(class='show')"\<newline>''
       @ ''    >&#x25B6&#xFE0E;</button>\<newline>''
       @ ''    <button class="ap-a-fab ap-a-fab-hide"\<newline>''
       @ ''            [class]="hidePreview''
       @ autoescape j (show_nat (index p))
       @ '' == 1 ? 'ap-a-fab ap-a-fab-hide' : 'ap-a-fab ap-a-fab-show'"\<newline>''
       @ ''            on="tap:AMP.setState({ hidePreview''
       @ autoescape j (show_nat (index p))
       @ '': 1 }),previewIframe''
       @ autoescape j (show_nat (index p))
       @ ''.toggleClass(class='show')"\<newline>''
       @ ''    >&#x2715&#xFE0E;</button>\<newline>''
       @ ''\<newline>''
       @ ''    <div class="ap-m-orientation-toggle">\<newline>''
       @ ''      ''
       @ ''\<newline>''
       @ ''\<newline>''
       @ ''      ''
       @ concat (map (orientation_button j p) orientations)
       @ ''\<newline>''
       @ ''    </div>\<newline>''
       @ ''\<newline>''
       @ ''    <button class="ap-o-code-preview-reload" on="tap:AMP.setState({'example''
       @ autoescape j (show_nat (index p))
       @ [CHR 0x27] @ '': '' @ [CHR 0x27]
       @ autoescape j (url p @ ''?'')
       @ [CHR 0x27] @ '' + random()})">\<newline>''
       @ ''      <div class="ap-a-ico">\<newline>''
       @ ''        <svg><use xmlns:xlink="http://www.w3.org/1999/xlink" xlink:href="#reload"></use></svg>\<newline>''
       @ ''      </div>\<newline>''
       @ ''    </button>\<newline>''
       @ ''\<newline>''
       @ ''    <div id="previewIframe''
       @ autoescape j (show_nat (index p))
       @ ''"\<newline>''
       @ ''         class="ap-o-code-preview-side-preview-frame ap-o-code-preview-side-preview-frame-portrait"\<newline>''
       @ ''         [class]="'ap-o-code-preview-side-preview-frame ap-o-code-preview-side-preview-frame-' + orientation''
       @ autoescape j (show_nat (index p))
       @ ''">\<newline>''
       @ ''      <div class="ap-o-code-preview-side-preview-sizer"></div>\<newline>''
       @ ''      <amp-iframe layout="fill"\<newline>''
       @ ''                  sandbox="allow-scripts allow-forms allow-same-origin allow-popups allow-popups-to-escape-sandbox allow-presentation allow-top-navigation"\<newline>''
       @ ''                  allowfullscreen allowpaymentrequest frameborder="0"\<newline>''
       @ ''                  src="''
       @ autoescape j (url p)
       @ ''"\<newline>''
       @ ''                  [src]="example''
       @ autoescape j (show_nat (index p))
       @ ''"\<newline>''
       @ ''                  class="i-amphtml-layout-fill i-amphtml-layout-size-defined" i-amphtml-layout="fill">\<newline>''
       @ ''        <div placeholder></div>\<newline>''
       @ ''      </amp-iframe>\<newline>''
       @ ''    </div>\<newline>''
       @ ''  </div>\<newline>''
       @ ''\<newline>''
       @ ''  '')\<close>

text \<open>Lines 135 to 137: the closing tag of the wrapping container.\<close>

definition wrapper_close :: string where
  \<open>wrapper_close =
       ''\<newline>''
     @ ''</div>\<newline>''\<close>

text \<open>Lines 139 to 146: the link to the playground.\<close>

definition playground_link :: "jinja \<Rightarrow> page_context \<Rightarrow> string" where
  \<open>playground_link j c =
     (let p = preview c
      in
         ''\<newline>''
       @ ''<a href="''
       @ autoescape j (playground_base c)
       @ ''/?url=''
       @ autoescape j (urlencode j (url p))
       @ ''%3Fformat%3D[= format =]" class="ap-m-lnk ap--playground-link">\<newline>''
       @ ''  <div class="ap-a-ico ap-m-lnk-icon">\<newline>''
       @ ''    <svg><use xmlns:xlink="http://www.w3.org/1999/xlink" xlink:href="#internal"></use></svg>\<newline>''
       @ ''  </div>\<newline>''
       @ ''  <span class="ap-m-lnk-text">''
       @ autoescape j (gettext j ''Open this snippet in playground'')
       @ ''</span>\<newline>''
       @ ''</a>\<newline>'')\<close>

text \<open>
  The template: the blocks in the order of the file, each under its test, with the text
  that stands between them. The result is the rendered text.
\<close>

definition code_preview :: "jinja \<Rightarrow> page_context \<Rightarrow> string" where
  "code_preview j c =
     (let p = preview c
      in
        (if mode p \<noteq> ''none'' then wrapper_open j p else [])
      @ ''\<newline>\<newline>  ''
      @ (if mode p = ''inline'' then inline_block j p else [])
      @ ''\<newline>\<newline>  ''
      @ (if mode p = ''top-frame'' then top_frame_block j p else [])
      @ ''\<newline>\<newline>''
      @ content c
      @ ''\<newline>\<newline>  ''
      @ (if mode p = ''side-frame'' then side_frame_block j p else [])
      @ ''\<newline>\<newline>''
      @ (if mode p \<noteq> ''none'' then wrapper_close else [])
      @ ''\<newline>\<newline>''
      @ (if playground p then playground_link j c else []))"

text \<open>
  The calls of \<^verbatim>\<open>doc.icons.useIcon\<close> that rendering makes, in order: one for each
  orientation, in the side-frame block (line 101).
\<close>

definition used_icons :: "page_context \<Rightarrow> string list" where
  "used_icons c =
     (if mode (preview c) = ''side-frame''
      then map (\<lambda>orientation'. ''/icons/orientation-'' @ orientation' @ ''.svg'')
             [''portrait'', ''landscape'']
      else [])"

subsection \<open>Sample descriptors\<close>

definition plain_jinja :: jinja where
  "plain_jinja = \<lparr>autoescape = id, render = id, urlencode = id, gettext = id\<rparr>"

definition sample_context :: "string \<Rightarrow> bool \<Rightarrow> page_context" where
  "sample_context m pg =
     \<lparr>preview =
        \<lparr>mode = m, source = ''<b>hi</b>'', orientation = None, index = 3,
         url = ''/documentation/examples/preview/'', playground = pg\<rparr>,
      content = ''<pre>code</pre>'',
      playground_base = ''https://playground.amp.dev''\<rparr>"

section \<open>Decimal printing\<close>

lemma digit_char_inj: "a < 10 \<Longrightarrow> b < 10 \<Longrightarrow> digit_char a = digit_char b \<Longrightarrow> a = b"
  unfolding digit_char_def by (simp split: if_splits) arith

lemma digit_char_not_minus: "digit_char d \<noteq> CHR ''-''"
  unfolding digit_char_def by simp

lemma show_nat_not_Nil: "show_nat n \<noteq> []"
  by (subst show_nat.simps) simp

lemma show_nat_no_minus: "CHR ''-'' \<notin> set (show_nat n)"
proof (induction n rule: show_nat.induct)
  case (1 n)
  show ?case
  proof (cases "n < 10")
    case True
    then show ?thesis
      by (subst show_nat.simps) (simp add: digit_char_not_minus [symmetric])
  next
    case False
    with "1" show ?thesis
      by (subst show_nat.simps) (simp add: digit_char_not_minus [symmetric])
  qed
qed

lemma show_nat_inj: "show_nat n = show_nat m \<Longrightarrow> n = m"
proof (induction n arbitrary: m rule: show_nat.induct)
  case (1 n)
  note eq = "1.prems"
  show ?case
  proof (cases "n < 10")
    case small_n: True
    show ?thesis
    proof (cases "m < 10")
      case True
      with small_n eq have "digit_char n = digit_char m"
        by (simp add: show_nat.simps [of n] show_nat.simps [of m])
      with small_n True show ?thesis
        by (rule digit_char_inj)
    next
      case False
      with small_n eq have "[digit_char n] = show_nat (m div 10) @ [digit_char (m mod 10)]"
        by (simp add: show_nat.simps [of n] show_nat.simps [of m])
      then have "show_nat (m div 10) = []"
        by simp
      then show ?thesis
        by (simp add: show_nat_not_Nil)
    qed
  next
    case big_n: False
    show ?thesis
    proof (cases "m < 10")
      case True
      with big_n eq have "show_nat (n div 10) @ [digit_char (n mod 10)] = [digit_char m]"
        by (simp add: show_nat.simps [of n] show_nat.simps [of m])
      then have "show_nat (n div 10) = []"
        by simp
      then show ?thesis
        by (simp add: show_nat_not_Nil)
    next
      case False
      with big_n eq have
        "show_nat (n div 10) @ [digit_char (n mod 10)]
           = show_nat (m div 10) @ [digit_char (m mod 10)]"
        by (simp add: show_nat.simps [of n] show_nat.simps [of m])
      then have tens: "show_nat (n div 10) = show_nat (m div 10)"
        and units: "digit_char (n mod 10) = digit_char (m mod 10)"
        by simp_all
      from big_n tens have "n div 10 = m div 10"
        by (rule "1.IH")
      moreover from units have "n mod 10 = m mod 10"
        by (intro digit_char_inj) simp_all
      ultimately show ?thesis
        by (metis div_mult_mod_eq)
    qed
  qed
qed

section \<open>Evaluating the sample inputs\<close>

lemma show_nat_42: "show_nat 42 = ''42''"
  by (simp add: show_nat.simps digit_char_def)

lemma TAG_default: "TAG startup_default = JString ''abc-42''"
  by (simp add: TAG_def js_or_def startup_default_def TIMESTAMP_def show_nat_42)

lemma PROJECT_ID_default: "PROJECT_ID startup_default = JString ''amp-dev-230314''"
  by (simp add: PROJECT_ID_def js_or_def startup_default_def)

section \<open>What a command and a task leave in the state\<close>

lemma sh_cfg [simp]: "cfg (snd (sh w c os s)) = cfg s"
  by (simp add: sh_def Let_def)

lemma sh_calls [simp]: "calls (snd (sh w c os s)) = calls s @ [\<lparr>command = c, options = os\<rparr>]"
  by (simp add: sh_def Let_def)

lemma sh_console [simp]: "console (snd (sh w c os s)) = console s"
  by (simp add: sh_def Let_def)

lemma console_log_cfg [simp]: "cfg (console_log a s) = cfg s"
  by (simp add: console_log_def)

lemma console_log_calls [simp]: "calls (console_log a s) = calls s"
  by (simp add: console_log_def)

lemma map_promises_cfg:
  assumes "\<And>x s. cfg (snd (f x s)) = cfg s"
  shows "cfg (snd (map_promises f xs s)) = cfg s"
  by (induction xs arbitrary: s) (simp_all add: assms split: prod.splits, metis assms snd_conv)

lemma map_promises_calls:
  assumes "\<And>x s. cfg (snd (f x s)) = cfg s"
    and "\<And>x s. calls (snd (f x s)) = calls s @ [c x (cfg s)]"
  shows "calls (snd (map_promises f xs s)) = calls s @ map (\<lambda>x. c x (cfg s)) xs"
proof (induction xs arbitrary: s)
  case Nil
  show ?case by simp
next
  case (Cons x xs)
  obtain r s1 where step: "f x s = (r, s1)"
    by (cases "f x s")
  obtain rs s2 where rest: "map_promises f xs s1 = (rs, s2)"
    by (cases "map_promises f xs s1")
  from step have "cfg s1 = cfg s" and "calls s1 = calls s @ [c x (cfg s)]"
    using assms(1) [of x s] assms(2) [of x s] by simp_all
  moreover from rest have "calls s2 = calls s1 @ map (\<lambda>x. c x (cfg s1)) xs"
    using Cons.IH [of s1] by simp
  ultimately show ?case
    by (simp add: step rest)
qed

lemma map_promises_sh_cfg:
  "cfg (snd (map_promises (\<lambda>x s'. sh w (F x (cfg s')) (Q (cfg s')) s') xs s)) = cfg s"
  by (rule map_promises_cfg) simp

lemma map_promises_sh_calls:
  "calls (snd (map_promises (\<lambda>x s'. sh w (F x (cfg s')) (Q (cfg s')) s') xs s)) =
     calls s @ map (\<lambda>x. \<lparr>command = F x (cfg s), options = Q (cfg s)\<rparr>) xs"
  by (rule map_promises_calls) simp_all

lemma as_task_snd [simp]: "snd (as_task f w s) = snd (f w s)"
  by (cases "f w s") (simp add: as_task_def split: sum.splits)

lemma as_task_isl [simp]: "isl (fst (as_task f w s)) = isl (fst (f w s))"
  by (cases "f w s") (simp add: as_task_def split: sum.splits)

lemma issued_as_task [simp]: "issued (as_task f) w s = issued f w s"
  by (simp add: issued_def)

lemma series_Cons:
  "series (t # ts) w s = (if isl (fst (t w s)) then t w s else series ts w (snd (t w s)))"
  by (cases "t w s") (auto split: sum.splits)

lemma series_single: "series [t] w s = t w s"
  by (cases "t w s") (auto split: sum.splits)

lemma series_Cons2:
  "series (t # u # us) w s =
     (if isl (fst (t w s)) then t w s else series (u # us) w (snd (t w s)))"
  by (rule series_Cons)

subsection \<open>The configuration\<close>

lemma verifyTag_cfg [simp]: "cfg (snd (verifyTag w s)) = cfg s"
  by (simp add: verifyTag_def sh_def Let_def console_log_def split: option.splits)

lemma gcloudSetup_cfg [simp]: "cfg (snd (gcloudSetup w s)) = cfg s"
  by (simp add: gcloudSetup_def sh_def Let_def split: option.splits)

lemma imageBuild_cfg [simp]: "cfg (snd (imageBuild w s)) = cfg s"
  by (simp add: imageBuild_def)

lemma imageRunLocal_cfg [simp]: "cfg (snd (imageRunLocal w s)) = cfg s"
  by (simp add: imageRunLocal_def)

lemma imageUpload_cfg [simp]: "cfg (snd (imageUpload w s)) = cfg s"
  by (simp add: imageUpload_def)

lemma imageList_cfg [simp]: "cfg (snd (imageList w s)) = cfg s"
  by (simp add: imageList_def)

lemma instanceTemplateCreate_cfg [simp]: "cfg (snd (instanceTemplateCreate w s)) = cfg s"
  unfolding instanceTemplateCreate_def by (rule sh_cfg)

lemma updateStop_cfg [simp]: "cfg (snd (updateStop w s)) = cfg s"
  unfolding updateStop_def by (rule sh_cfg)

lemma packagerInstanceTemplateCreate_cfg [simp]:
  "cfg (snd (packagerInstanceTemplateCreate w s)) = cfg s"
  unfolding packagerInstanceTemplateCreate_def by (rule sh_cfg)

lemma packagerImageUpload_cfg [simp]: "cfg (snd (packagerImageUpload w s)) = cfg s"
  unfolding packagerImageUpload_def by (rule sh_cfg)

lemma updateStart_cfg [simp]: "cfg (snd (updateStart w s)) = cfg s"
proof -
  let ?F = "\<lambda>g c. ''gcloud beta compute instance-groups managed rolling-action ''
                  @ ''                 start-update '' @ group.name g @ '' ''
                  @ ''                 --version template='' @ template (instance c) @ '' ''
                  @ ''                 --zone='' @ group.zone g @ '' ''
                  @ ''                 --min-ready 4m ''
                  @ ''                 --max-surge 1 ''
                  @ ''                 --max-unavailable 1''"
  let ?f = "\<lambda>group s'. sh w (?F group (cfg s')) None s'"
  obtain updates s1 where started: "map_promises ?f (groups (instance (cfg s))) s = (updates, s1)"
    by (cases "map_promises ?f (groups (instance (cfg s))) s")
  have "cfg s1 = cfg (snd (map_promises ?f (groups (instance (cfg s))) s))"
    by (simp only: started snd_conv)
  also have "\<dots> = cfg s"
    by (rule map_promises_sh_cfg [where F = ?F and Q = "\<lambda>c. None"])
  finally have kept: "cfg s1 = cfg s" .
  have "cfg (snd (updateStart w s)) = cfg s1"
    unfolding updateStart_def started by (simp split: sum.split)
  with kept show ?thesis
    by simp
qed

lemma updateStatus_cfg [simp]: "cfg (snd (updateStatus w s)) = cfg s"
proof -
  let ?F = "\<lambda>g (c::config). ''gcloud beta compute instance-groups managed describe ''
                        @ group.name g @ '' ''
                      @ ''             --zone='' @ group.zone g"
  let ?f = "\<lambda>group s'. sh w (?F group (cfg s')) None s'"
  have "cfg (snd (map_promises ?f (groups (instance (cfg s))) s)) = cfg s"
    by (rule map_promises_sh_cfg [where F = ?F and Q = "\<lambda>c. None"])
  then show ?thesis
    unfolding updateStatus_def by (simp only: case_prod_beta snd_conv)
qed

lemma packagerUpdateStart_cfg [simp]: "cfg (snd (packagerUpdateStart w s)) = cfg s"
proof -
  let ?F = "\<lambda>g c. ''gcloud beta compute instance-groups managed rolling-action ''
                      @ ''                 start-update '' @ group.name g @ '' ''
                      @ ''                 --version template=''
                        @ template (instance (packager c)) @ '' ''
                      @ ''                 --zone='' @ group.zone g @ '' ''
                      @ ''                 --min-ready 1m ''
                      @ ''                 --max-surge 1 ''
                      @ ''                 --max-unavailable 1''"
  let ?f = "\<lambda>group s'. sh w (?F group (cfg s')) (Some (opts (packager (cfg s')))) s'"
  obtain updates s1 where started:
    "map_promises ?f (groups (instance (packager (cfg s)))) s = (updates, s1)"
    by (cases "map_promises ?f (groups (instance (packager (cfg s)))) s")
  have "cfg s1 = cfg (snd (map_promises ?f (groups (instance (packager (cfg s)))) s))"
    by (simp only: started snd_conv)
  also have "\<dots> = cfg s"
    by (rule map_promises_sh_cfg [where F = ?F and Q = "\<lambda>c. Some (opts (packager c))"])
  finally have kept: "cfg s1 = cfg s" .
  have "cfg (snd (packagerUpdateStart w s)) = cfg s1"
    unfolding packagerUpdateStart_def started by (simp split: sum.split)
  with kept show ?thesis
    by simp
qed

lemma series_cfg:
  "(\<And>t w s. t \<in> set ts \<Longrightarrow> cfg (snd (t w s)) = cfg s) \<Longrightarrow> cfg (snd (series ts w s)) = cfg s"
proof (induction ts arbitrary: s)
  case Nil
  show ?case by simp
next
  case (Cons t ts)
  have here: "cfg (snd (t w s)) = cfg s"
    by (rule Cons.prems) simp
  have later: "cfg (snd (series ts w (snd (t w s)))) = cfg (snd (t w s))"
    by (rule Cons.IH) (simp add: Cons.prems)
  show ?case
    by (simp only: series_Cons here later split: if_split) simp
qed

lemma deploy_cfg [simp]: "cfg (snd (deploy w s)) = cfg s"
  unfolding deploy_def by (rule series_cfg) auto

lemma packagerDeploy_cfg [simp]: "cfg (snd (packagerDeploy w s)) = cfg s"
  unfolding packagerDeploy_def by (rule series_cfg) auto

lemma exports_keep_config: "(n, t) \<in> set exports \<Longrightarrow> cfg (snd (t w s)) = cfg s"
  unfolding exports_def by auto

lemma reachable_config: "reachable w su s \<Longrightarrow> cfg s = config su"
  by (induction rule: reachable.induct) (simp_all add: init_def exports_keep_config)

subsection \<open>The commands issued\<close>

lemma verifyTag_calls:
  "calls (snd (verifyTag w s)) =
     calls s @ [\<lparr>command = ''gcloud container images list-tags '' @ image.name (image (cfg s)),
                 options = Some \<lparr>quiet = Some True, workingDir = None\<rparr>\<rparr>]"
  by (simp add: verifyTag_def sh_def Let_def console_log_def split: option.splits)

lemma updateStart_calls:
  "calls (snd (updateStart w s)) =
     calls s @
     map (\<lambda>g. \<lparr>command =
                  ''gcloud beta compute instance-groups managed rolling-action ''
                  @ ''                 start-update '' @ group.name g @ '' ''
                  @ ''                 --version template='' @ template (instance (cfg s)) @ '' ''
                  @ ''                 --zone='' @ group.zone g @ '' ''
                  @ ''                 --min-ready 4m ''
                  @ ''                 --max-surge 1 ''
                  @ ''                 --max-unavailable 1'',
                options = None\<rparr>)
       (groups (instance (cfg s)))"
proof -
  let ?F = "\<lambda>g c. ''gcloud beta compute instance-groups managed rolling-action ''
                  @ ''                 start-update '' @ group.name g @ '' ''
                  @ ''                 --version template='' @ template (instance c) @ '' ''
                  @ ''                 --zone='' @ group.zone g @ '' ''
                  @ ''                 --min-ready 4m ''
                  @ ''                 --max-surge 1 ''
                  @ ''                 --max-unavailable 1''"
  let ?f = "\<lambda>group s'. sh w (?F group (cfg s')) None s'"
  obtain updates s1 where started: "map_promises ?f (groups (instance (cfg s))) s = (updates, s1)"
    by (cases "map_promises ?f (groups (instance (cfg s))) s")
  have "calls s1 = calls (snd (map_promises ?f (groups (instance (cfg s))) s))"
    by (simp only: started snd_conv)
  also have "\<dots> = calls s @ map (\<lambda>g. \<lparr>command = ?F g (cfg s), options = None\<rparr>)
                               (groups (instance (cfg s)))"
    by (rule map_promises_sh_calls [where F = ?F and Q = "\<lambda>c. None"])
  finally have all_issued:
    "calls s1 = calls s @ map (\<lambda>g. \<lparr>command = ?F g (cfg s), options = None\<rparr>)
                               (groups (instance (cfg s)))" .
  have "calls (snd (updateStart w s)) = calls s1"
    unfolding updateStart_def started by (simp split: sum.split)
  then show ?thesis
    by (simp only: all_issued)
qed

lemma packagerUpdateStart_calls:
  "calls (snd (packagerUpdateStart w s)) =
     calls s @
     map (\<lambda>g. \<lparr>command =
                  ''gcloud beta compute instance-groups managed rolling-action ''
                  @ ''                 start-update '' @ group.name g @ '' ''
                  @ ''                 --version template=''
                    @ template (instance (packager (cfg s))) @ '' ''
                  @ ''                 --zone='' @ group.zone g @ '' ''
                  @ ''                 --min-ready 1m ''
                  @ ''                 --max-surge 1 ''
                  @ ''                 --max-unavailable 1'',
                options = Some (opts (packager (cfg s)))\<rparr>)
       (groups (instance (packager (cfg s))))"
proof -
  let ?F = "\<lambda>g c. ''gcloud beta compute instance-groups managed rolling-action ''
                  @ ''                 start-update '' @ group.name g @ '' ''
                  @ ''                 --version template=''
                    @ template (instance (packager c)) @ '' ''
                  @ ''                 --zone='' @ group.zone g @ '' ''
                  @ ''                 --min-ready 1m ''
                  @ ''                 --max-surge 1 ''
                  @ ''                 --max-unavailable 1''"
  let ?Q = "\<lambda>c. Some (opts (packager c))"
  let ?f = "\<lambda>group s'. sh w (?F group (cfg s')) (?Q (cfg s')) s'"
  obtain updates s1 where started:
    "map_promises ?f (groups (instance (packager (cfg s)))) s = (updates, s1)"
    by (cases "map_promises ?f (groups (instance (packager (cfg s)))) s")
  have "calls s1 = calls (snd (map_promises ?f (groups (instance (packager (cfg s)))) s))"
    by (simp only: started snd_conv)
  also have "\<dots> = calls s @ map (\<lambda>g. \<lparr>command = ?F g (cfg s), options = ?Q (cfg s)\<rparr>)
                               (groups (instance (packager (cfg s))))"
    by (rule map_promises_sh_calls [where F = ?F and Q = ?Q])
  finally have all_issued:
    "calls s1 = calls s @ map (\<lambda>g. \<lparr>command = ?F g (cfg s), options = ?Q (cfg s)\<rparr>)
                               (groups (instance (packager (cfg s))))" .
  have "calls (snd (packagerUpdateStart w s)) = calls s1"
    unfolding packagerUpdateStart_def started by (simp split: sum.split)
  then show ?thesis
    by (simp only: all_issued)
qed

lemma calls_issued:
  "calls (snd (f w s)) = calls s @ cs \<Longrightarrow> calls (snd (f w s)) = calls s @ issued f w s"
  by (simp add: issued_def)

lemma verifyTag_issued: "calls (snd (verifyTag w s)) = calls s @ issued verifyTag w s"
  by (rule calls_issued) (rule verifyTag_calls)

lemma imageUpload_issued: "calls (snd (imageUpload w s)) = calls s @ issued imageUpload w s"
  unfolding imageUpload_def issued_def by simp

lemma instanceTemplateCreate_issued:
  "calls (snd (instanceTemplateCreate w s)) = calls s @ issued instanceTemplateCreate w s"
  by (rule calls_issued) (simp only: instanceTemplateCreate_def sh_calls)

lemma updateStart_issued: "calls (snd (updateStart w s)) = calls s @ issued updateStart w s"
  by (rule calls_issued) (rule updateStart_calls)

lemma packagerImageUpload_issued:
  "calls (snd (packagerImageUpload w s)) = calls s @ issued packagerImageUpload w s"
  by (rule calls_issued) (simp only: packagerImageUpload_def sh_calls)

lemma packagerInstanceTemplateCreate_issued:
  "calls (snd (packagerInstanceTemplateCreate w s))
     = calls s @ issued packagerInstanceTemplateCreate w s"
  by (rule calls_issued) (simp only: packagerInstanceTemplateCreate_def sh_calls)

lemma packagerUpdateStart_issued:
  "calls (snd (packagerUpdateStart w s)) = calls s @ issued packagerUpdateStart w s"
  by (rule calls_issued) (rule packagerUpdateStart_calls)

section \<open>Tag verification\<close>

text \<open>
  What \<open>verifyTag\<close> returns when the registry query succeeds and prints \<open>tags\<close>: it
  raises exactly when the printed text contains the string form of \<^verbatim>\<open>config.tag\<close> somewhere
  (\<^verbatim>\<open>tags.includes(config.tag)\<close> is a substring test on the whole output); the error is
  then the explicit \<^verbatim>\<open>Error\<close> with the message "The commit ... has already been deployed!",
  never the rejection of a failed command; otherwise \<open>verifyTag\<close> completes.
\<close>

lemma verifyTag_result:
  assumes "w (calls s)
             \<lparr>command = ''gcloud container images list-tags '' @ image.name (image (cfg s)),
              options = Some \<lparr>quiet = Some True, workingDir = None\<rparr>\<rparr> = Some tags"
  shows "(isl (fst (verifyTag w s)) \<longleftrightarrow> js_includes tags (js_to_string (tag (cfg s))))
       \<and> (js_includes tags (js_to_string (tag (cfg s))) \<longrightarrow>
            fst (verifyTag w s)
              = Inl (Error (''The commit '' @ js_to_string (tag (cfg s))
                            @ '' you are trying to build has already been deployed!'')))
       \<and> (\<not> js_includes tags (js_to_string (tag (cfg s))) \<longrightarrow> fst (verifyTag w s) = Inr ())
       \<and> (\<forall>c. fst (verifyTag w s) \<noteq> Inl (CommandFailed c))"
  using assms
  by (simp add: verifyTag_def sh_def Let_def console_log_def)

lemma verifyTag_command_failed:
  assumes "w (calls s)
             \<lparr>command = ''gcloud container images list-tags '' @ image.name (image (cfg s)),
              options = Some \<lparr>quiet = Some True, workingDir = None\<rparr>\<rparr> = None"
  shows "fst (verifyTag w s)
           = Inl (CommandFailed
                   (''gcloud container images list-tags '' @ image.name (image (cfg s))))"
  using assms
  by (simp add: verifyTag_def sh_def Let_def)

text \<open>
  C1. The claim: \<open>verifyTag\<close> raises if and only if the tag list that the registry query
  returns contains the candidate tag. The code tests something else, whether the text
  the query prints contains the candidate as a substring, and so it also raises for a
  candidate that is not in the list. With \<^verbatim>\<open>--tag v1\<close>, and a registry whose only tag is
  \<^verbatim>\<open>v10\<close>, the query succeeds and \<open>verifyTag\<close> raises the collision error, reporting that
  the commit \<^verbatim>\<open>v1\<close> has already been deployed.
\<close>

theorem verifyTag_rejects_unlisted_tag:
  "tag (cfg (init startup_v1)) = JString ''v1''
   \<and> answer registry_lists_v10 (calls (init startup_v1))
        \<lparr>command = ''gcloud container images list-tags gcr.io/amp-dev-230314/amp-dev'',
         options = Some \<lparr>quiet = Some True, workingDir = None\<rparr>\<rparr>
       = Some (''DIGEST        TAGS  TIMESTAMP\<newline>''
               @ ''0a1b2c3d4e5f  v10   2019-05-01T10:00:00\<newline>'')
   \<and> issued verifyTag (answer registry_lists_v10) (init startup_v1)
       = [\<lparr>command = ''gcloud container images list-tags gcr.io/amp-dev-230314/amp-dev'',
           options = Some \<lparr>quiet = Some True, workingDir = None\<rparr>\<rparr>]
   \<and> fst (verifyTag (answer registry_lists_v10) (init startup_v1))
       = Inl (Error ''The commit v1 you are trying to build has already been deployed!'')"
proof -
  have candidate: "tag (cfg (init startup_v1)) = JString ''v1''"
    by (simp add: init_def config_def TAG_def js_or_def startup_v1_def)
  have name: "image.name (image (cfg (init startup_v1))) = ''gcr.io/amp-dev-230314/amp-dev''"
    by (simp add: init_def config_def PROJECT_ID_def js_or_def PREFIX_def startup_v1_def)
  have printed: "answer registry_lists_v10 (calls (init startup_v1))
        \<lparr>command = ''gcloud container images list-tags gcr.io/amp-dev-230314/amp-dev'',
         options = Some \<lparr>quiet = Some True, workingDir = None\<rparr>\<rparr>
       = Some (''DIGEST        TAGS  TIMESTAMP\<newline>''
               @ ''0a1b2c3d4e5f  v10   2019-05-01T10:00:00\<newline>'')"
    by (simp add: answer_def registry_lists_v10_def)
  have query: "issued verifyTag (answer registry_lists_v10) (init startup_v1)
       = [\<lparr>command = ''gcloud container images list-tags gcr.io/amp-dev-230314/amp-dev'',
           options = Some \<lparr>quiet = Some True, workingDir = None\<rparr>\<rparr>]"
    unfolding issued_def verifyTag_calls name by simp
  have raised: "fst (verifyTag (answer registry_lists_v10) (init startup_v1))
       = Inl (Error ''The commit v1 you are trying to build has already been deployed!'')"
    by (simp add: verifyTag_def sh_def Let_def console_log_def answer_def
        registry_lists_v10_def candidate)
  from candidate printed query raised show ?thesis
    by (intro conjI)
qed

section \<open>The composite deploy task\<close>

text \<open>
  C2. The composite \<open>deploy\<close> runs \<open>verifyTag\<close>, \<open>imageUpload\<close>, \<open>instanceTemplateCreate\<close>
  and \<open>updateStart\<close> in this order, each in the state the step before it left and only
  when that step did not raise; the commands it issues are those of the steps that ran,
  in the same order. If \<open>verifyTag\<close> raises, \<open>deploy\<close> ends as \<open>verifyTag\<close> does, and the
  only command issued is the registry query: none of the three later steps executes.
\<close>

theorem deploy_steps_in_order:
  "deploy w s =
     (let r1 = verifyTag w s in
      if isl (fst r1) then r1 else
      let r2 = as_task imageUpload w (snd r1) in
      if isl (fst r2) then r2 else
      let r3 = as_task instanceTemplateCreate w (snd r2) in
      if isl (fst r3) then r3 else
      updateStart w (snd r3))
   \<and> issued deploy w s =
     (let r1 = verifyTag w s in
      issued verifyTag w s @
      (if isl (fst r1) then [] else
       let r2 = as_task imageUpload w (snd r1) in
       issued imageUpload w (snd r1) @
       (if isl (fst r2) then [] else
        let r3 = as_task instanceTemplateCreate w (snd r2) in
        issued instanceTemplateCreate w (snd r2) @
        (if isl (fst r3) then [] else issued updateStart w (snd r3)))))
   \<and> (isl (fst (verifyTag w s)) \<longrightarrow>
        deploy w s = verifyTag w s
        \<and> issued deploy w s =
            [\<lparr>command = ''gcloud container images list-tags '' @ image.name (image (cfg s)),
              options = Some \<lparr>quiet = Some True, workingDir = None\<rparr>\<rparr>])"
proof -
  define r1 where "r1 = verifyTag w s"
  define r2 where "r2 = as_task imageUpload w (snd r1)"
  define r3 where "r3 = as_task instanceTemplateCreate w (snd r2)"
  define r4 where "r4 = updateStart w (snd r3)"
  have chain: "deploy w s =
     (if isl (fst r1) then r1 else if isl (fst r2) then r2 else if isl (fst r3) then r3 else r4)"
    unfolding deploy_def r1_def r2_def r3_def r4_def
    by (simp only: series_Cons2 series_single)
  have c1: "calls (snd r1) = calls s @ issued verifyTag w s"
    unfolding r1_def by (rule verifyTag_issued)
  have c2: "calls (snd r2) = calls (snd r1) @ issued imageUpload w (snd r1)"
    unfolding r2_def as_task_snd by (rule imageUpload_issued)
  have c3: "calls (snd r3) = calls (snd r2) @ issued instanceTemplateCreate w (snd r2)"
    unfolding r3_def as_task_snd by (rule instanceTemplateCreate_issued)
  have c4: "calls (snd r4) = calls (snd r3) @ issued updateStart w (snd r3)"
    unfolding r4_def by (rule updateStart_issued)
  have trace: "issued deploy w s =
      issued verifyTag w s @
      (if isl (fst r1) then [] else
       issued imageUpload w (snd r1) @
       (if isl (fst r2) then [] else
        issued instanceTemplateCreate w (snd r2) @
        (if isl (fst r3) then [] else issued updateStart w (snd r3))))"
    by (simp add: issued_def [of deploy] chain c1 c2 c3 c4)
  have query: "issued verifyTag w s =
            [\<lparr>command = ''gcloud container images list-tags '' @ image.name (image (cfg s)),
              options = Some \<lparr>quiet = Some True, workingDir = None\<rparr>\<rparr>]"
    unfolding issued_def verifyTag_calls by simp
  have stop: "isl (fst (verifyTag w s)) \<longrightarrow>
        deploy w s = verifyTag w s
        \<and> issued deploy w s =
            [\<lparr>command = ''gcloud container images list-tags '' @ image.name (image (cfg s)),
              options = Some \<lparr>quiet = Some True, workingDir = None\<rparr>\<rparr>]"
    using chain trace query by (simp add: r1_def)
  from chain trace stop show ?thesis
    unfolding Let_def r1_def r2_def r3_def r4_def by simp
qed

theorem deploy_steps_in_order_witness:
  "isl (fst (verifyTag (answer ''abc-42'') (init startup_default)))
   \<and> deploy (answer ''abc-42'') (init startup_default)
       = verifyTag (answer ''abc-42'') (init startup_default)
   \<and> map command (issued deploy (answer ''abc-42'') (init startup_default))
       = [''gcloud container images list-tags gcr.io/amp-dev-230314/amp-dev'']"
proof -
  have raised: "isl (fst (verifyTag (answer ''abc-42'') (init startup_default)))"
    by (simp add: verifyTag_def sh_def Let_def console_log_def answer_def init_def config_def
        TAG_default)
  have name: "image.name (image (cfg (init startup_default))) = ''gcr.io/amp-dev-230314/amp-dev''"
    by (simp add: init_def config_def PROJECT_ID_default PREFIX_def)
  from raised deploy_steps_in_order [of "answer ''abc-42''" "init startup_default"]
  have "deploy (answer ''abc-42'') (init startup_default)
          = verifyTag (answer ''abc-42'') (init startup_default)"
    and "issued deploy (answer ''abc-42'') (init startup_default) =
            [\<lparr>command = ''gcloud container images list-tags ''
                         @ image.name (image (cfg (init startup_default))),
              options = Some \<lparr>quiet = Some True, workingDir = None\<rparr>\<rparr>]"
    by blast+
  with raised show ?thesis
    by (simp add: name)
qed

section \<open>The image reference and the tag\<close>

text \<open>
  C3 (as amended). For every project id and every tag override that JavaScript treats
  as truthy (a non-empty string, a number other than \<^verbatim>\<open>0\<close> and \<^verbatim>\<open>NaN\<close>, \<^verbatim>\<open>true\<close>), the current
  image reference \<^verbatim>\<open>config.image.current\<close> is \<^verbatim>\<open>gcr.io/\<close>, the project id, \<^verbatim>\<open>/amp-dev:\<close> and
  the override as JavaScript prints it, in this order.
\<close>

theorem image_current_explicit_tag:
  "js_truthy (argv.tag (argv su)) \<Longrightarrow>
     current (image (config su))
       = ''gcr.io/'' @ js_to_string (PROJECT_ID su) @ ''/'' @ ''amp-dev'' @ '':''
           @ js_to_string (argv.tag (argv su))"
  by (simp add: config_def TAG_def js_or_def PREFIX_def)

theorem image_current_explicit_tag_witness:
  "js_truthy (argv.tag (argv startup_tagged))
   \<and> current (image (config startup_tagged)) = ''gcr.io/my-gcloud-project/amp-dev:ABCDE''
   \<and> js_truthy (argv.tag (argv startup_tag_number))
   \<and> current (image (config startup_tag_number))
       = ''gcr.io/amp-dev-230314/amp-dev:1152921504606847000''"
proof -
  have truthy: "js_truthy (argv.tag (argv startup_tagged))"
    by (simp add: startup_tagged_def)
  have number: "js_truthy (argv.tag (argv startup_tag_number))"
    by (simp add: startup_tag_number_def)
  from image_current_explicit_tag [OF truthy] truthy
  have "current (image (config startup_tagged)) = ''gcr.io/my-gcloud-project/amp-dev:ABCDE''"
    by (simp add: PROJECT_ID_def js_or_def startup_tagged_def)
  moreover from image_current_explicit_tag [OF number] number
  have "current (image (config startup_tag_number))
          = ''gcr.io/amp-dev-230314/amp-dev:1152921504606847000''"
    by (simp add: PROJECT_ID_def js_or_def startup_tag_number_def)
  ultimately show ?thesis
    using truthy number by (intro conjI)
qed

text \<open>
  The claim as stated, for every supplied override, fails for the overrides that
  \<^verbatim>\<open>argv.tag || ...\<close> passes over: with the empty string, and with \<^verbatim>\<open>--tag 0\<close>, the image
  reference carries the default tag \<^verbatim>\<open>abc-42\<close> (version and timestamp), not the override.
\<close>

theorem image_current_explicit_tag_counterexample:
  "current (image (config startup_tag_empty)) = ''gcr.io/my-gcloud-project/amp-dev:abc-42''
   \<and> current (image (config startup_tag_empty))
        \<noteq> ''gcr.io/'' @ ''my-gcloud-project'' @ ''/'' @ ''amp-dev'' @ '':''
            @ js_to_string (argv.tag (argv startup_tag_empty))
   \<and> current (image (config startup_tag0)) = ''gcr.io/amp-dev-230314/amp-dev:abc-42''
   \<and> current (image (config startup_tag0))
        \<noteq> ''gcr.io/'' @ ''amp-dev-230314'' @ ''/'' @ ''amp-dev'' @ '':''
            @ js_to_string (argv.tag (argv startup_tag0))"
  by (simp add: config_def TAG_def PROJECT_ID_def js_or_def PREFIX_def TIMESTAMP_def
      startup_tag_empty_def startup_tag0_def show_nat_42 number_0_def)

lemma default_tag:
  "argv.tag (argv su) = JUndefined \<Longrightarrow>
     TAG su = JString (git_version su @ ''-'' @ show_nat (Date_now su))"
  by (simp add: TAG_def js_or_def TIMESTAMP_def)

lemma first_separator:
  "c \<notin> set xs \<Longrightarrow> c \<notin> set xs' \<Longrightarrow> xs @ c # ys = xs' @ c # ys' \<Longrightarrow> xs = xs'"
proof (induction xs arbitrary: xs')
  case Nil
  show ?case
  proof (cases xs')
    case Nil
    then show ?thesis by simp
  next
    case (Cons a as)
    with Nil.prems(3) have "c = a" by simp
    with Nil.prems(2) Cons show ?thesis by simp
  qed
next
  case (Cons x xs)
  show ?case
  proof (cases xs')
    case Nil
    with Cons.prems(3) have "x = c" by simp
    with Cons.prems(1) show ?thesis by simp
  next
    case (Cons a as)
    with Cons.prems(3) have heads: "x = a" and tails: "xs @ c # ys = as @ c # ys'"
      by simp_all
    from Cons.prems(1) have "c \<notin> set xs" by simp
    moreover from Cons.prems(2) Cons have "c \<notin> set as" by simp
    ultimately have "xs = as"
      using tails by (rule Cons.IH)
    with heads Cons show ?thesis by simp
  qed
qed

lemma dash_suffix_eq:
  assumes "v @ ''-'' @ d = v' @ ''-'' @ d'"
    and "CHR ''-'' \<notin> set d" and "CHR ''-'' \<notin> set d'"
  shows "d = d'"
proof -
  from assms(1) have "rev (v @ ''-'' @ d) = rev (v' @ ''-'' @ d')"
    by (simp only:)
  then have reversed: "rev d @ CHR ''-'' # rev v = rev d' @ CHR ''-'' # rev v'"
    by simp
  have "CHR ''-'' \<notin> set (rev d)" and "CHR ''-'' \<notin> set (rev d')"
    using assms(2,3) by simp_all
  then have "rev d = rev d'"
    using reversed by (rule first_separator)
  then show ?thesis
    by simp
qed

text \<open>
  C6. When no tag override is supplied (\<^verbatim>\<open>argv.tag\<close> is \<^verbatim>\<open>undefined\<close>), the computed tag is a
  non-empty string, and two invocations whose clocks \<^verbatim>\<open>Date.now()\<close> differ compute
  different tags, whatever their version strings are.
\<close>

theorem default_tag_nonempty_and_fresh:
  assumes "argv.tag (argv su) = JUndefined" and "argv.tag (argv su') = JUndefined"
  shows "(\<exists>t. TAG su = JString t \<and> t \<noteq> [])
       \<and> (Date_now su \<noteq> Date_now su' \<longrightarrow> TAG su \<noteq> TAG su')"
proof (intro conjI impI)
  show "\<exists>t. TAG su = JString t \<and> t \<noteq> []"
    using default_tag [OF assms(1)] by simp
next
  assume differ: "Date_now su \<noteq> Date_now su'"
  show "TAG su \<noteq> TAG su'"
  proof
    assume "TAG su = TAG su'"
    then have "git_version su @ ''-'' @ show_nat (Date_now su)
                 = git_version su' @ ''-'' @ show_nat (Date_now su')"
      by (simp only: default_tag [OF assms(1)] default_tag [OF assms(2)] jsval.inject)
    then have "show_nat (Date_now su) = show_nat (Date_now su')"
      by (rule dash_suffix_eq) (rule show_nat_no_minus)+
    then have "Date_now su = Date_now su'"
      by (rule show_nat_inj)
    with differ show False
      by contradiction
  qed
qed

theorem default_tag_nonempty_and_fresh_witness:
  "argv.tag (argv startup_default) = JUndefined
   \<and> argv.tag (argv startup_later) = JUndefined
   \<and> Date_now startup_default \<noteq> Date_now startup_later
   \<and> (\<exists>t. TAG startup_default = JString t \<and> t \<noteq> [])
   \<and> TAG startup_default \<noteq> TAG startup_later"
proof -
  have a: "argv.tag (argv startup_default) = JUndefined"
    by (simp add: startup_default_def)
  have b: "argv.tag (argv startup_later) = JUndefined"
    by (simp add: startup_later_def)
  have c: "Date_now startup_default \<noteq> Date_now startup_later"
    by (simp add: startup_default_def startup_later_def)
  from default_tag_nonempty_and_fresh [OF a b] a b c show ?thesis
    by blast
qed

section \<open>The rolling update\<close>

text \<open>
  C4. For every list of instance groups in the configuration, one run of \<open>updateStart\<close>
  issues exactly one rolling-update command for each group of the list, in the order of
  the list (none skipped, none issued twice), and the command that names a group carries
  that group's zone as its \<^verbatim>\<open>--zone\<close> argument.
\<close>

theorem updateStart_one_command_per_group:
  "calls (snd (updateStart w s)) =
     calls s @
     map (\<lambda>g. \<lparr>command =
                  ''gcloud beta compute instance-groups managed rolling-action ''
                  @ ''                 start-update '' @ group.name g @ '' ''
                  @ ''                 --version template='' @ template (instance (cfg s)) @ '' ''
                  @ ''                 --zone='' @ group.zone g @ '' ''
                  @ ''                 --min-ready 4m ''
                  @ ''                 --max-surge 1 ''
                  @ ''                 --max-unavailable 1'',
                options = None\<rparr>)
       (groups (instance (cfg s)))
   \<and> length (issued updateStart w s) = length (groups (instance (cfg s)))"
proof -
  note all_issued = updateStart_calls [of w s]
  moreover have "length (issued updateStart w s) = length (groups (instance (cfg s)))"
    unfolding issued_def all_issued by simp
  ultimately show ?thesis
    by (rule conjI)
qed

theorem updateStart_one_command_per_group_witness:
  "map command (calls (snd (updateStart (answer ''ok'') (init startup_default)))) =
     [''gcloud beta compute instance-groups managed rolling-action ''
      @ ''                 start-update ig-amp-dev-europe ''
      @ ''                 --version template=it-amp-dev-abc-42 ''
      @ ''                 --zone=europe-west2-c ''
      @ ''                 --min-ready 4m ''
      @ ''                 --max-surge 1 ''
      @ ''                 --max-unavailable 1'',
      ''gcloud beta compute instance-groups managed rolling-action ''
      @ ''                 start-update ig-amp-dev-zone2 ''
      @ ''                 --version template=it-amp-dev-abc-42 ''
      @ ''                 --zone=us-east1-b ''
      @ ''                 --min-ready 4m ''
      @ ''                 --max-surge 1 ''
      @ ''                 --max-unavailable 1'']"
  using updateStart_one_command_per_group [of "answer ''ok''" "init startup_default"]
  by (simp add: init_def config_def TAG_default PREFIX_def)

text \<open>
  C7. \<open>updateStop\<close> reads \<^verbatim>\<open>config.instance.group\<close>. The object \<^verbatim>\<open>config.instance\<close> has the
  properties \<^verbatim>\<open>groups\<close>, \<^verbatim>\<open>template\<close>, \<^verbatim>\<open>count\<close> and \<^verbatim>\<open>machine\<close> and no property \<^verbatim>\<open>group\<close>, so
  the read yields \<^verbatim>\<open>undefined\<close>; the one command \<open>updateStop\<close> issues ends in the word
  \<^verbatim>\<open>undefined\<close> and contains the name of no configured instance group, of the main service
  or of the packager.
\<close>

theorem updateStop_names_no_group:
  "js_member (instance_properties (instance (cfg (init su)))) ''group'' = JUndefined
   \<and> issued updateStop w (init su) =
        [\<lparr>command = ''gcloud compute instance-groups managed rolling-action ''
                     @ ''    stop-proactive-update '' @ ''undefined'',
          options = None\<rparr>]
   \<and> (\<forall>g \<in> set (groups (instance (config su)) @ groups (instance (packager (config su)))).
         \<forall>c \<in> set (issued updateStop w (init su)). \<not> js_includes (command c) (group.name g))"
proof -
  have undef: "js_member (instance_properties (instance (cfg (init su)))) ''group'' = JUndefined"
    by (simp add: js_member_def instance_properties_def)
  have cmd: "issued updateStop w (init su) =
        [\<lparr>command = ''gcloud compute instance-groups managed rolling-action ''
                     @ ''    stop-proactive-update '' @ ''undefined'',
          options = None\<rparr>]"
    unfolding issued_def updateStop_def sh_calls undef by (simp add: init_def)
  have names: "groups (instance (config su)) @ groups (instance (packager (config su)))
     = [\<lparr>group.name = ''ig-amp-dev-europe'', group.zone = ''europe-west2-c''\<rparr>,
        \<lparr>group.name = ''ig-amp-dev-zone2'', group.zone = ''us-east1-b''\<rparr>,
        \<lparr>group.name = ''ig-amp-dev-packager'', group.zone = ''us-east1-b''\<rparr>]"
    by (simp add: config_def PREFIX_def PACKAGER_PREFIX_def)
  show ?thesis
    unfolding cmd names by (simp add: undef)
qed

theorem updateStop_names_no_group_witness:
  "map command (issued updateStop (answer ''ok'') (init startup_default))
     = [''gcloud compute instance-groups managed rolling-action     stop-proactive-update undefined'']
   \<and> map group.name (groups (instance (config startup_default)))
       = [''ig-amp-dev-europe'', ''ig-amp-dev-zone2'']
   \<and> \<not> js_includes
         ''gcloud compute instance-groups managed rolling-action     stop-proactive-update undefined''
         ''ig-amp-dev-europe''
   \<and> \<not> js_includes
         ''gcloud compute instance-groups managed rolling-action     stop-proactive-update undefined''
         ''ig-amp-dev-zone2''"
  using updateStop_names_no_group [of startup_default "answer ''ok''"]
  by (simp add: config_def PREFIX_def PACKAGER_PREFIX_def)

section \<open>The packager composite\<close>

text \<open>
  C8 (as amended). The composite \<open>packagerDeploy\<close> runs the packager's counterparts of
  three of the four steps of \<open>deploy\<close>, namely \<open>packagerImageUpload\<close>,
  \<open>packagerInstanceTemplateCreate\<close> and \<open>packagerUpdateStart\<close>, in this order and each only
  when the step before it did not raise; every command it issues reads the packager
  configuration and runs in the packager's working directory. It has no verification
  step: the composite of the specification is a tag verification followed by
  \<open>packagerDeploy\<close>.
\<close>

theorem packagerDeploy_steps_in_order:
  "packagerDeploy w s =
     (let r1 = as_task packagerImageUpload w s in
      if isl (fst r1) then r1 else
      let r2 = as_task packagerInstanceTemplateCreate w (snd r1) in
      if isl (fst r2) then r2 else
      packagerUpdateStart w (snd r2))
   \<and> issued packagerDeploy w s =
     (let r1 = as_task packagerImageUpload w s in
      issued packagerImageUpload w s @
      (if isl (fst r1) then [] else
       let r2 = as_task packagerInstanceTemplateCreate w (snd r1) in
       issued packagerInstanceTemplateCreate w (snd r1) @
       (if isl (fst r2) then [] else issued packagerUpdateStart w (snd r2))))
   \<and> issued packagerImageUpload w s =
       [\<lparr>command = ''gcloud builds submit --tag '' @ current (image (packager (cfg s))) @ '' .'',
         options = Some (opts (packager (cfg s)))\<rparr>]
   \<and> issued packagerInstanceTemplateCreate w s =
       [\<lparr>command = ''gcloud compute instance-templates create-with-container ''
           @ ''                                   '' @ template (instance (packager (cfg s)))
             @ '' ''
           @ ''                 --container-image '' @ current (image (packager (cfg s)))
             @ '' ''
           @ ''                 --machine-type '' @ machine (instance (packager (cfg s))),
         options = Some (opts (packager (cfg s)))\<rparr>]
   \<and> issued packagerUpdateStart w s =
       map (\<lambda>g. \<lparr>command =
                  ''gcloud beta compute instance-groups managed rolling-action ''
                  @ ''                 start-update '' @ group.name g @ '' ''
                  @ ''                 --version template=''
                    @ template (instance (packager (cfg s))) @ '' ''
                  @ ''                 --zone='' @ group.zone g @ '' ''
                  @ ''                 --min-ready 1m ''
                  @ ''                 --max-surge 1 ''
                  @ ''                 --max-unavailable 1'',
                options = Some (opts (packager (cfg s)))\<rparr>)
         (groups (instance (packager (cfg s))))
   \<and> packagerDeploy_spec w s =
     (let r0 = packagerVerifyTag_spec w s in
      if isl (fst r0) then r0 else packagerDeploy w (snd r0))"
proof -
  define r1 where "r1 = as_task packagerImageUpload w s"
  define r2 where "r2 = as_task packagerInstanceTemplateCreate w (snd r1)"
  define r3 where "r3 = packagerUpdateStart w (snd r2)"
  have chain: "packagerDeploy w s =
     (if isl (fst r1) then r1 else if isl (fst r2) then r2 else r3)"
    unfolding packagerDeploy_def r1_def r2_def r3_def
    by (simp only: series_Cons2 series_single)
  have c1: "calls (snd r1) = calls s @ issued packagerImageUpload w s"
    unfolding r1_def as_task_snd by (rule packagerImageUpload_issued)
  have c2: "calls (snd r2) = calls (snd r1) @ issued packagerInstanceTemplateCreate w (snd r1)"
    unfolding r2_def as_task_snd by (rule packagerInstanceTemplateCreate_issued)
  have c3: "calls (snd r3) = calls (snd r2) @ issued packagerUpdateStart w (snd r2)"
    unfolding r3_def by (rule packagerUpdateStart_issued)
  have trace: "issued packagerDeploy w s =
      issued packagerImageUpload w s @
      (if isl (fst r1) then [] else
       issued packagerInstanceTemplateCreate w (snd r1) @
       (if isl (fst r2) then [] else issued packagerUpdateStart w (snd r2)))"
    by (simp add: issued_def [of packagerDeploy] chain c1 c2 c3)
  have upload: "issued packagerImageUpload w s =
       [\<lparr>command = ''gcloud builds submit --tag '' @ current (image (packager (cfg s))) @ '' .'',
         options = Some (opts (packager (cfg s)))\<rparr>]"
    unfolding issued_def packagerImageUpload_def sh_calls by simp
  have create: "issued packagerInstanceTemplateCreate w s =
       [\<lparr>command = ''gcloud compute instance-templates create-with-container ''
           @ ''                                   '' @ template (instance (packager (cfg s)))
             @ '' ''
           @ ''                 --container-image '' @ current (image (packager (cfg s)))
             @ '' ''
           @ ''                 --machine-type '' @ machine (instance (packager (cfg s))),
         options = Some (opts (packager (cfg s)))\<rparr>]"
    unfolding issued_def packagerInstanceTemplateCreate_def sh_calls by simp
  have update: "issued packagerUpdateStart w s =
       map (\<lambda>g. \<lparr>command =
                  ''gcloud beta compute instance-groups managed rolling-action ''
                  @ ''                 start-update '' @ group.name g @ '' ''
                  @ ''                 --version template=''
                    @ template (instance (packager (cfg s))) @ '' ''
                  @ ''                 --zone='' @ group.zone g @ '' ''
                  @ ''                 --min-ready 1m ''
                  @ ''                 --max-surge 1 ''
                  @ ''                 --max-unavailable 1'',
                options = Some (opts (packager (cfg s)))\<rparr>)
         (groups (instance (packager (cfg s))))"
    unfolding issued_def packagerUpdateStart_calls by simp
  have spec: "packagerDeploy_spec w s =
     (let r0 = packagerVerifyTag_spec w s in
      if isl (fst r0) then r0 else packagerDeploy w (snd r0))"
    unfolding packagerDeploy_spec_def packagerDeploy_def Let_def by (rule series_Cons2)
  from chain trace have
    "packagerDeploy w s =
     (let r1 = as_task packagerImageUpload w s in
      if isl (fst r1) then r1 else
      let r2 = as_task packagerInstanceTemplateCreate w (snd r1) in
      if isl (fst r2) then r2 else
      packagerUpdateStart w (snd r2))"
    and "issued packagerDeploy w s =
     (let r1 = as_task packagerImageUpload w s in
      issued packagerImageUpload w s @
      (if isl (fst r1) then [] else
       let r2 = as_task packagerInstanceTemplateCreate w (snd r1) in
       issued packagerInstanceTemplateCreate w (snd r1) @
       (if isl (fst r2) then [] else issued packagerUpdateStart w (snd r2))))"
    unfolding Let_def r1_def r2_def r3_def by simp_all
  with upload create update spec show ?thesis
    by (intro conjI)
qed

text \<open>
  The claim as stated gives \<open>packagerDeploy\<close> a counterpart of every step of \<open>deploy\<close>,
  the verification included. Where the registry already lists the tag \<^verbatim>\<open>abc-42\<close>, that
  four-step composite stops with the collision error; \<open>packagerDeploy\<close> completes, having
  issued the upload, the template creation and the rolling update, and no registry query.
\<close>

theorem packagerDeploy_counterexample:
  "fst (packagerDeploy_spec (answer ''abc-42'') (init startup_default))
     = Inl (Error ''The commit abc-42 you are trying to build has already been deployed!'')
   \<and> fst (packagerDeploy (answer ''abc-42'') (init startup_default)) = Inr ()
   \<and> map command (issued packagerDeploy (answer ''abc-42'') (init startup_default))
     = [''gcloud builds submit --tag gcr.io/amp-dev-230314/amp-dev-packager:abc-42 .'',
        ''gcloud compute instance-templates create-with-container ''
          @ ''                                   it-amp-dev-packager-abc-42 ''
          @ ''                 --container-image gcr.io/amp-dev-230314/amp-dev-packager:abc-42 ''
          @ ''                 --machine-type n1-standard-1'',
        ''gcloud beta compute instance-groups managed rolling-action ''
          @ ''                 start-update ig-amp-dev-packager ''
          @ ''                 --version template=it-amp-dev-packager-abc-42 ''
          @ ''                 --zone=us-east1-b ''
          @ ''                 --min-ready 1m ''
          @ ''                 --max-surge 1 ''
          @ ''                 --max-unavailable 1'']"
  by (simp add: packagerDeploy_spec_def packagerDeploy_def packagerVerifyTag_spec_def
      packagerImageUpload_def packagerInstanceTemplateCreate_def packagerUpdateStart_def
      as_task_def sh_def Let_def console_log_def answer_def init_def config_def TAG_default
      PROJECT_ID_default PREFIX_def PACKAGER_PREFIX_def issued_def)

section \<open>The configuration is never written\<close>

text \<open>
  C9. The configuration is built when the module is loaded (\<open>init\<close>), from the defaults
  and the commandline. Every exported task leaves the configuration as it found it, so
  in every state of a process run it is the configuration built at the start; in
  particular \<^verbatim>\<open>tag\<close>, \<^verbatim>\<open>image.current\<close>, \<^verbatim>\<open>instance.template\<close> and their packager
  counterparts carry one and the same tag, the \<open>TAG\<close> computed at the start.
\<close>

theorem config_immutable:
  "((n, t) \<in> set exports \<longrightarrow> cfg (snd (t w s)) = cfg s)
   \<and> (reachable w su s' \<longrightarrow>
        cfg s' = config su
        \<and> tag (cfg s') = TAG su
        \<and> tag (packager (cfg s')) = TAG su
        \<and> current (image (cfg s'))
            = ''gcr.io/'' @ js_to_string (PROJECT_ID su) @ ''/amp-dev:'' @ js_to_string (TAG su)
        \<and> template (instance (cfg s')) = ''it-amp-dev-'' @ js_to_string (TAG su)
        \<and> current (image (packager (cfg s')))
            = ''gcr.io/'' @ js_to_string (PROJECT_ID su) @ ''/amp-dev-packager:''
                @ js_to_string (TAG su)
        \<and> template (instance (packager (cfg s')))
            = ''it-amp-dev-packager-'' @ js_to_string (TAG su))"
proof (intro conjI impI)
  assume "(n, t) \<in> set exports"
  then show "cfg (snd (t w s)) = cfg s"
    by (rule exports_keep_config)
next
  assume "reachable w su s'"
  then have same: "cfg s' = config su"
    by (rule reachable_config)
  show "cfg s' = config su"
    by (rule same)
  show "tag (cfg s') = TAG su" "tag (packager (cfg s')) = TAG su"
    by (simp_all add: same config_def)
  show "current (image (cfg s'))
          = ''gcr.io/'' @ js_to_string (PROJECT_ID su) @ ''/amp-dev:'' @ js_to_string (TAG su)"
    by (simp add: same config_def PREFIX_def)
  show "template (instance (cfg s')) = ''it-amp-dev-'' @ js_to_string (TAG su)"
    by (simp add: same config_def PREFIX_def)
  show "current (image (packager (cfg s')))
          = ''gcr.io/'' @ js_to_string (PROJECT_ID su) @ ''/amp-dev-packager:''
              @ js_to_string (TAG su)"
    by (simp add: same config_def PREFIX_def PACKAGER_PREFIX_def)
  show "template (instance (packager (cfg s')))
          = ''it-amp-dev-packager-'' @ js_to_string (TAG su)"
    by (simp add: same config_def PREFIX_def PACKAGER_PREFIX_def)
qed

theorem config_immutable_witness:
  "(''deploy'', deploy) \<in> set exports
   \<and> reachable (answer ''none'') startup_default
         (snd (deploy (answer ''none'') (init startup_default)))
   \<and> cfg (snd (deploy (answer ''none'') (init startup_default))) = cfg (init startup_default)
   \<and> tag (cfg (snd (deploy (answer ''none'') (init startup_default)))) = TAG startup_default
   \<and> template (instance (cfg (snd (deploy (answer ''none'') (init startup_default)))))
        = ''it-amp-dev-'' @ js_to_string (TAG startup_default)"
proof -
  have listed: "(''deploy'', deploy) \<in> set exports"
    by (simp add: exports_def)
  then have reached: "reachable (answer ''none'') startup_default
                    (snd (deploy (answer ''none'') (init startup_default)))"
    by (rule after_task [OF at_start])
  from listed reached
    config_immutable [of "''deploy''" deploy "answer ''none''" "init startup_default"
        startup_default "snd (deploy (answer ''none'') (init startup_default))"]
  show ?thesis
    by blast
qed

section \<open>What the template renders\<close>

lemma show_nat_3: "show_nat 3 = ''3''"
  by (simp add: show_nat.simps digit_char_def)

text \<open>
  C5. A descriptor with the mode \<^verbatim>\<open>none\<close> renders neither the wrapping container (the
  \<^verbatim>\<open>div\<close> of class \<^verbatim>\<open>ap-o-code-preview\<close> and its closing tag) nor any of the inline,
  top-frame and side-frame blocks: the output is the content and, if flagged, the
  playground link, with line breaks and blanks around them. In each of the modes
  \<^verbatim>\<open>inline\<close>, \<^verbatim>\<open>top-frame\<close> and \<^verbatim>\<open>side-frame\<close> the output is the container, opened with the
  mode as its second class and closed after the last block, and inside it the content
  and the markup of that mode's own block, and of no other mode's: the inline preview
  before the content, the top frame before the content, the side frame after it.
\<close>

theorem code_preview_by_mode:
  \<open>(mode (preview c) = ''none'' \<longrightarrow>
      code_preview j c =
          ''\<newline>\<newline>  \<newline>\<newline>  \<newline>\<newline>''
        @ content c
        @ ''\<newline>\<newline>  \<newline>\<newline>''
        @ ''\<newline>\<newline>''
        @ (if playground (preview c) then playground_link j c else []))
   \<and> (mode (preview c) = ''inline'' \<longrightarrow>
      code_preview j c =
          ''\<newline>''
        @ ''<div class="ap-o-code-preview ''
        @ autoescape j ''inline''
        @ ''">\<newline>''
        @ ''\<newline>\<newline>  \<newline>''
        @ ''  <div class="ap-o-code-preview-preview">\<newline>''
        @ ''     ''
        @ render j (source (preview c))
        @ ''\<newline>''
        @ ''  </div>\<newline>''
        @ ''  \<newline>\<newline>  \<newline>\<newline>''
        @ content c
        @ ''\<newline>\<newline>  \<newline>\<newline>''
        @ ''\<newline>''
        @ ''</div>\<newline>''
        @ ''\<newline>\<newline>''
        @ (if playground (preview c) then playground_link j c else []))
   \<and> (mode (preview c) = ''top-frame'' \<longrightarrow>
      code_preview j c =
        (let initial_orientation =
               (case orientation (preview c) of
                  None \<Rightarrow> ''landscape''
                | Some v \<Rightarrow> if v \<noteq> [] then v else ''landscape'');
             is_landscape = (initial_orientation = ''landscape'')
         in
            ''\<newline>''
          @ ''<div class="ap-o-code-preview ''
          @ autoescape j ''top-frame''
          @ ''">\<newline>''
          @ ''\<newline>\<newline>  \<newline>\<newline>  \<newline>''
          @ ''  \<newline>''
          @ ''  \<newline>''
          @ ''  <amp-state id="orientation''
          @ autoescape j (show_nat (index (preview c)))
          @ ''">\<newline>''
          @ ''    <script type="application/json">\<newline>''
          @ ''      ''
          @ autoescape j (if is_landscape then ''true'' else ''false'')
          @ ''\<newline>''
          @ ''    </script>\<newline>''
          @ ''  </amp-state>\<newline>''
          @ ''  <amp-state id="example''
          @ autoescape j (show_nat (index (preview c)))
          @ ''">\<newline>''
          @ ''    <script type="application/json">\<newline>''
          @ ''      "''
          @ autoescape j (url (preview c))
          @ ''"\<newline>''
          @ ''    </script>\<newline>''
          @ ''  </amp-state>\<newline>''
          @ ''\<newline>''
          @ ''  <div class="ap-o-code-preview-top-preview ap-o-code-preview-top-preview-''
          @ autoescape j (show_nat (index (preview c)))
          @ ''">\<newline>''
          @ ''\<newline>''
          @ ''    <div class="ap-o-code-preview-controls">\<newline>''
          @ ''      <button ''
          @ (if \<not> is_landscape then autoescape j ''hidden'' else [])
          @ '' [hidden]="!orientation''
          @ autoescape j (show_nat (index (preview c)))
          @ ''"\<newline>''
          @ ''              class="ap-o-code-preview-controls-button"\<newline>''
          @ ''              on="tap:\<newline>''
          @ ''                  AMP.setState({orientation''
          @ autoescape j (show_nat (index (preview c)))
          @ '': false}),\<newline>''
          @ ''                  iframeContainer''
          @ autoescape j (show_nat (index (preview c)))
          @ ''.toggleClass(class='ap-o-code-preview-preview-iframe-landscape'),\<newline>''
          @ ''                  iframeContainer''
          @ autoescape j (show_nat (index (preview c)))
          @ ''.toggleClass(class='ap-o-code-preview-preview-iframe-portrait')">\<newline>''
          @ ''        <div class="ap-a-ico ap-o-code-preview-controls-icon">\<newline>''
          @ ''          <svg><use xmlns:xlink="http://www.w3.org/1999/xlink" xlink:href="#orientation-toggle"></use></svg>\<newline>''
          @ ''        </div>\<newline>''
          @ ''      </button>\<newline>''
          @ ''      <button ''
          @ (if is_landscape then autoescape j ''hidden'' else [])
          @ '' [hidden]="orientation''
          @ autoescape j (show_nat (index (preview c)))
          @ ''"\<newline>''
          @ ''              class="ap-o-code-preview-controls-button"\<newline>''
          @ ''              on="tap:\<newline>''
          @ ''                  AMP.setState({orientation''
          @ autoescape j (show_nat (index (preview c)))
          @ '': true}),\<newline>''
          @ ''                  iframeContainer''
          @ autoescape j (show_nat (index (preview c)))
          @ ''.toggleClass(class='ap-o-code-preview-preview-iframe-portrait'),\<newline>''
          @ ''                  iframeContainer''
          @ autoescape j (show_nat (index (preview c)))
          @ ''.toggleClass(class='ap-o-code-preview-preview-iframe-landscape')">\<newline>''
          @ ''        <div class="ap-a-ico ap-o-code-preview-controls-icon">\<newline>''
          @ ''          <svg><use xmlns:xlink="http://www.w3.org/1999/xlink" xlink:href="#orientation-toggle"></use></svg>\<newline>''
          @ ''        </div>\<newline>''
          @ ''      </button>\<newline>''
          @ ''\<newline>''
          @ ''      <button class="ap-o-code-preview-controls-button"\<newline>''
          @ ''              on="tap:AMP.setState({'example''
          @ autoescape j (show_nat (index (preview c)))
          @ [CHR 0x27] @ '': '' @ [CHR 0x27]
          @ autoescape j (url (preview c) @ ''?'')
          @ [CHR 0x27] @ '' + random()})">\<newline>''
          @ ''        <div class="ap-a-ico ap-o-code-preview-controls-icon">\<newline>''
          @ ''          <svg><use xmlns:xlink="http://www.w3.org/1999/xlink" xlink:href="#reload"></use></svg>\<newline>''
          @ ''        </div>\<newline>''
          @ ''      </button>\<newline>''
          @ ''    </div>\<newline>''
          @ ''\<newline>''
          @ ''    <div id="iframeContainer''
          @ autoescape j (show_nat (index (preview c)))
          @ ''" class="ap-o-code-preview-preview-iframe ap-o-code-preview-preview-iframe-''
          @ autoescape j initial_orientation
          @ ''">\<newline>''
          @ ''      <amp-iframe class="ap-o-code-preview-iframe"\<newline>''
          @ ''                  src="''
          @ autoescape j (url (preview c))
          @ ''"\<newline>''
          @ ''                  [src]="example''
          @ autoescape j (show_nat (index (preview c)))
          @ ''"\<newline>''
          @ ''                  layout="flex-item"\<newline>''
          @ ''                  sandbox="allow-scripts allow-popups allow-same-origin"\<newline>''
          @ ''                  frameborder="0">\<newline>''
          @ ''        <div placeholder></div>\<newline>''
          @ ''      </amp-iframe>\<newline>''
          @ ''      <div class="ap-o-code-preview-preview-iframe-background initial-''
          @ autoescape j initial_orientation
          @ ''"></div>\<newline>''
          @ ''    </div>\<newline>''
          @ ''  </div>\<newline>''
          @ ''  \<newline>\<newline>''
          @ content c
          @ ''\<newline>\<newline>  \<newline>\<newline>''
          @ ''\<newline>''
          @ ''</div>\<newline>''
          @ ''\<newline>\<newline>''
          @ (if playground (preview c) then playground_link j c else [])))
   \<and> (mode (preview c) = ''side-frame'' \<longrightarrow>
      code_preview j c =
          ''\<newline>''
        @ ''<div class="ap-o-code-preview ''
        @ autoescape j ''side-frame''
        @ ''">\<newline>''
        @ ''\<newline>\<newline>  \<newline>\<newline>  \<newline>\<newline>''
        @ content c
        @ ''\<newline>\<newline>  \<newline>''
        @ ''  <amp-state id="orientation''
        @ autoescape j (show_nat (index (preview c)))
        @ ''">\<newline>''
        @ ''    <script type="application/json">\<newline>''
        @ ''      "portrait"\<newline>''
        @ ''    </script>\<newline>''
        @ ''  </amp-state>\<newline>''
        @ ''  <amp-state id="example''
        @ autoescape j (show_nat (index (preview c)))
        @ ''">\<newline>''
        @ ''    <script type="application/json">\<newline>''
        @ ''      "''
        @ autoescape j (url (preview c))
        @ ''"\<newline>''
        @ ''    </script>\<newline>''
        @ ''  </amp-state>\<newline>''
        @ ''  \<newline>''
        @ ''  <div class="''
        @ autoescape j ''ap-o-code-preview-side-preview''
        @ ''"\<newline>''
        @ ''       [class]="hidePreview''
        @ autoescape j (show_nat (index (preview c)))
        @ '' != 1 ? '' @ [CHR 0x27]
        @ autoescape j ''ap-o-code-preview-side-preview''
        @ '' ''
        @ autoescape j ''ap-o-code-preview-side-preview''
        @ ''-active' : '' @ [CHR 0x27]
        @ autoescape j ''ap-o-code-preview-side-preview''
        @ [CHR 0x27] @ ''">\<newline>''
        @ ''\<newline>''
        @ ''    <button class="ap-a-fab ap-a-fab-show"\<newline>''
        @ ''            [class]="hidePreview''
        @ autoescape j (show_nat (index (preview c)))
        @ '' != 1 ? 'ap-a-fab ap-a-fab-hide' : 'ap-a-fab ap-a-fab-show'"\<newline>''
        @ ''            on="tap:AMP.setState({ hidePreview''
        @ autoescape j (show_nat (index (preview c)))
        @ '': 0 }),previewIframe''
        @ autoescape j (show_nat (index (preview c)))
        @ ''.toggleClass(class='show')"\<newline>''
        @ ''    >&#x25B6&#xFE0E;</button>\<newline>''
        @ ''    <button class="ap-a-fab ap-a-fab-hide"\<newline>''
        @ ''            [class]="hidePreview''
        @ autoescape j (show_nat (index (preview c)))
        @ '' == 1 ? 'ap-a-fab ap-a-fab-hide' : 'ap-a-fab ap-a-fab-show'"\<newline>''
        @ ''            on="tap:AMP.setState({ hidePreview''
        @ autoescape j (show_nat (index (preview c)))
        @ '': 1 }),previewIframe''
        @ autoescape j (show_nat (index (preview c)))
        @ ''.toggleClass(class='show')"\<newline>''
        @ ''    >&#x2715&#xFE0E;</button>\<newline>''
        @ ''\<newline>''
        @ ''    <div class="ap-m-orientation-toggle">\<newline>''
        @ ''      \<newline>''
        @ ''\<newline>''
        @ ''      \<newline>''
        @ ''      \<newline>''
        @ ''      <button class="ap-m-orientation-toggle-button active"\<newline>''
        @ ''              [class]="orientation''
        @ autoescape j (show_nat (index (preview c)))
        @ '' == '' @ [CHR 0x27]
        @ autoescape j ''portrait''
        @ [CHR 0x27] @ '' ? 'ap-m-orientation-toggle-button active' : 'ap-m-orientation-toggle-button'"\<newline>''
        @ ''              on="tap:AMP.setState({orientation''
        @ autoescape j (show_nat (index (preview c)))
        @ '': '' @ [CHR 0x27]
        @ autoescape j ''portrait''
        @ [CHR 0x27] @ ''})">\<newline>''
        @ ''        <svg class="ap-a-ico ap-m-orientation-toggle-icon">\<newline>''
        @ ''          <use xmlns:xlink="http://www.w3.org/1999/xlink" xlink:href="#orientation-''
        @ autoescape j ''portrait''
        @ ''"></use>\<newline>''
        @ ''        </svg>\<newline>''
        @ ''      </button>\<newline>''
        @ ''      \<newline>''
        @ ''      \<newline>''
        @ ''      <button class="ap-m-orientation-toggle-button "\<newline>''
        @ ''              [class]="orientation''
        @ autoescape j (show_nat (index (preview c)))
        @ '' == '' @ [CHR 0x27]
        @ autoescape j ''landscape''
        @ [CHR 0x27] @ '' ? 'ap-m-orientation-toggle-button active' : 'ap-m-orientation-toggle-button'"\<newline>''
        @ ''              on="tap:AMP.setState({orientation''
        @ autoescape j (show_nat (index (preview c)))
        @ '': '' @ [CHR 0x27]
        @ autoescape j ''landscape''
        @ [CHR 0x27] @ ''})">\<newline>''
        @ ''        <svg class="ap-a-ico ap-m-orientation-toggle-icon">\<newline>''
        @ ''          <use xmlns:xlink="http://www.w3.org/1999/xlink" xlink:href="#orientation-''
        @ autoescape j ''landscape''
        @ ''"></use>\<newline>''
        @ ''        </svg>\<newline>''
        @ ''      </button>\<newline>''
        @ ''      \<newline>''
        @ ''    </div>\<newline>''
        @ ''\<newline>''
        @ ''    <button class="ap-o-code-preview-reload" on="tap:AMP.setState({'example''
        @ autoescape j (show_nat (index (preview c)))
        @ [CHR 0x27] @ '': '' @ [CHR 0x27]
        @ autoescape j (url (preview c) @ ''?'')
        @ [CHR 0x27] @ '' + random()})">\<newline>''
        @ ''      <div class="ap-a-ico">\<newline>''
        @ ''        <svg><use xmlns:xlink="http://www.w3.org/1999/xlink" xlink:href="#reload"></use></svg>\<newline>''
        @ ''      </div>\<newline>''
        @ ''    </button>\<newline>''
        @ ''\<newline>''
        @ ''    <div id="previewIframe''
        @ autoescape j (show_nat (index (preview c)))
        @ ''"\<newline>''
        @ ''         class="ap-o-code-preview-side-preview-frame ap-o-code-preview-side-preview-frame-portrait"\<newline>''
        @ ''         [class]="'ap-o-code-preview-side-preview-frame ap-o-code-preview-side-preview-frame-' + orientation''
        @ autoescape j (show_nat (index (preview c)))
        @ ''">\<newline>''
        @ ''      <div class="ap-o-code-preview-side-preview-sizer"></div>\<newline>''
        @ ''      <amp-iframe layout="fill"\<newline>''
        @ ''                  sandbox="allow-scripts allow-forms allow-same-origin allow-popups allow-popups-to-escape-sandbox allow-presentation allow-top-navigation"\<newline>''
        @ ''                  allowfullscreen allowpaymentrequest frameborder="0"\<newline>''
        @ ''                  src="''
        @ autoescape j (url (preview c))
        @ ''"\<newline>''
        @ ''                  [src]="example''
        @ autoescape j (show_nat (index (preview c)))
        @ ''"\<newline>''
        @ ''                  class="i-amphtml-layout-fill i-amphtml-layout-size-defined" i-amphtml-layout="fill">\<newline>''
        @ ''        <div placeholder></div>\<newline>''
        @ ''      </amp-iframe>\<newline>''
        @ ''    </div>\<newline>''
        @ ''  </div>\<newline>''
        @ ''\<newline>''
        @ ''  \<newline>\<newline>''
        @ ''\<newline>''
        @ ''</div>\<newline>''
        @ ''\<newline>\<newline>''
        @ (if playground (preview c) then playground_link j c else []))\<close>
  by (simp add: code_preview_def Let_def wrapper_open_def inline_block_def top_frame_block_def
      side_frame_block_def orientation_button_def wrapper_close_def)

theorem code_preview_by_mode_witness:
  \<open>code_preview plain_jinja (sample_context ''none'' False) =
       ''\<newline>\<newline>  \<newline>\<newline>  \<newline>\<newline>''
     @ ''<pre>code</pre>\<newline>''
     @ ''\<newline>  \<newline>\<newline>\<newline>\<newline>''
   \<and> code_preview plain_jinja (sample_context ''inline'' False) =
       ''\<newline>''
     @ ''<div class="ap-o-code-preview inline">\<newline>''
     @ ''\<newline>\<newline>  \<newline>''
     @ ''  <div class="ap-o-code-preview-preview">\<newline>''
     @ ''     <b>hi</b>\<newline>''
     @ ''  </div>\<newline>''
     @ ''  \<newline>\<newline>  \<newline>\<newline>''
     @ ''<pre>code</pre>\<newline>''
     @ ''\<newline>  \<newline>\<newline>\<newline>''
     @ ''</div>\<newline>''
     @ ''\<newline>\<newline>''
   \<and> take 89 (code_preview plain_jinja (sample_context ''top-frame'' False)) =
       ''\<newline>''
     @ ''<div class="ap-o-code-preview top-frame">\<newline>''
     @ ''\<newline>\<newline>  \<newline>\<newline>  \<newline>  \<newline>  \<newline>''
     @ ''  <amp-state id="orientation3">''
   \<and> take 105 (code_preview plain_jinja (sample_context ''side-frame'' False)) =
       ''\<newline>''
     @ ''<div class="ap-o-code-preview side-frame">\<newline>''
     @ ''\<newline>\<newline>  \<newline>\<newline>  \<newline>\<newline>''
     @ ''<pre>code</pre>\<newline>''
     @ ''\<newline>  \<newline>''
     @ ''  <amp-state id="orientation3">''\<close>
  using code_preview_by_mode [of "sample_context ''none'' False" plain_jinja]
    code_preview_by_mode [of "sample_context ''inline'' False" plain_jinja]
    code_preview_by_mode [of "sample_context ''top-frame'' False" plain_jinja]
    code_preview_by_mode [of "sample_context ''side-frame'' False" plain_jinja]
  by (simp add: sample_context_def plain_jinja_def show_nat_3 Let_def)

text \<open>
  C10. Whatever the mode is, the output contains the content, once and as it was given
  (it is marked \<^verbatim>\<open>safe\<close>), between the blocks that come before and after it, and it ends
  with the playground link (the anchor of class \<^verbatim>\<open>ap--playground-link\<close>, outside the
  wrapping container) exactly when \<^verbatim>\<open>preview.playground\<close> is set; nothing else in the output
  depends on that flag. In particular, in the mode \<^verbatim>\<open>none\<close> the output is the content and,
  if flagged, the playground link, with only line breaks and blanks around them.
\<close>

theorem code_preview_content_and_playground:
  \<open>code_preview j c =
      (if mode (preview c) \<noteq> ''none'' then wrapper_open j (preview c) else [])
    @ ''\<newline>\<newline>  ''
    @ (if mode (preview c) = ''inline'' then inline_block j (preview c) else [])
    @ ''\<newline>\<newline>  ''
    @ (if mode (preview c) = ''top-frame'' then top_frame_block j (preview c) else [])
    @ ''\<newline>\<newline>''
    @ content c
    @ ''\<newline>\<newline>  ''
    @ (if mode (preview c) = ''side-frame'' then side_frame_block j (preview c) else [])
    @ ''\<newline>\<newline>''
    @ (if mode (preview c) \<noteq> ''none'' then wrapper_close else [])
    @ ''\<newline>\<newline>''
    @ (if playground (preview c)
           then
               ''\<newline>''
             @ ''<a href="''
             @ autoescape j (playground_base c)
             @ ''/?url=''
             @ autoescape j (urlencode j (url (preview c)))
             @ ''%3Fformat%3D[= format =]" class="ap-m-lnk ap--playground-link">\<newline>''
             @ ''  <div class="ap-a-ico ap-m-lnk-icon">\<newline>''
             @ ''    <svg><use xmlns:xlink="http://www.w3.org/1999/xlink" xlink:href="#internal"></use></svg>\<newline>''
             @ ''  </div>\<newline>''
             @ ''  <span class="ap-m-lnk-text">''
             @ autoescape j (gettext j ''Open this snippet in playground'')
             @ ''</span>\<newline>''
             @ ''</a>\<newline>''
           else [])
   \<and> (mode (preview c) = ''none'' \<longrightarrow>
        code_preview j c =
          ''\<newline>\<newline>  \<newline>\<newline>  \<newline>\<newline>''
        @ content c
        @ ''\<newline>\<newline>  \<newline>\<newline>\<newline>\<newline>''
        @ (if playground (preview c)
           then
               ''\<newline>''
             @ ''<a href="''
             @ autoescape j (playground_base c)
             @ ''/?url=''
             @ autoescape j (urlencode j (url (preview c)))
             @ ''%3Fformat%3D[= format =]" class="ap-m-lnk ap--playground-link">\<newline>''
             @ ''  <div class="ap-a-ico ap-m-lnk-icon">\<newline>''
             @ ''    <svg><use xmlns:xlink="http://www.w3.org/1999/xlink" xlink:href="#internal"></use></svg>\<newline>''
             @ ''  </div>\<newline>''
             @ ''  <span class="ap-m-lnk-text">''
             @ autoescape j (gettext j ''Open this snippet in playground'')
             @ ''</span>\<newline>''
             @ ''</a>\<newline>''
           else []))\<close>
  by (simp add: code_preview_def Let_def playground_link_def)

theorem code_preview_content_and_playground_witness:
  \<open>mode (preview (sample_context ''none'' True)) = ''none''
   \<and> code_preview plain_jinja (sample_context ''none'' True) =
       ''\<newline>\<newline>  \<newline>\<newline>  \<newline>\<newline>''
     @ ''<pre>code</pre>\<newline>''
     @ ''\<newline>  \<newline>\<newline>\<newline>\<newline>''
     @ ''\<newline>''
     @ ''<a href="https://playground.amp.dev/?url=/documentation/examples/preview/%3Fformat%3D[= format =]" class="ap-m-lnk ap--playground-link">\<newline>''
     @ ''  <div class="ap-a-ico ap-m-lnk-icon">\<newline>''
     @ ''    <svg><use xmlns:xlink="http://www.w3.org/1999/xlink" xlink:href="#internal"></use></svg>\<newline>''
     @ ''  </div>\<newline>''
     @ ''  <span class="ap-m-lnk-text">Open this snippet in playground</span>\<newline>''
     @ ''</a>\<newline>''
   \<and> code_preview plain_jinja (sample_context ''none'' False) =
       ''\<newline>\<newline>  \<newline>\<newline>  \<newline>\<newline>''
     @ ''<pre>code</pre>\<newline>''
     @ ''\<newline>  \<newline>\<newline>\<newline>\<newline>''\<close>
  using code_preview_content_and_playground [of plain_jinja "sample_context ''none'' True"]
    code_preview_content_and_playground [of plain_jinja "sample_context ''none'' False"]
  by (simp add: sample_context_def plain_jinja_def)

end
